theory Spec2Isabelle
  imports Complex_Main "HOL-Library.Multiset"
begin

section \<open>Data model of the processing pipeline\<close>

text \<open>
  A data frame is a list of rows; a cell that pandas reads as missing (NaN) is \<open>None\<close>.
  Cells carry the types of the data model (a growth cell holds a number or is missing).
  The pass-through identifier columns of the sales table are shared by the raw (wide)
  and the melted (long) row.

  The exceptions that can end a method are values of \<open>py_error\<close>: \<open>read_csv\<close> on an
  absent file raises FileNotFoundError, \<open>iloc[0]\<close> on an empty frame raises IndexError
  (the specification's RowNotFound), and \<open>nlargest\<close> on a column that is not numeric
  raises TypeError.
\<close>

datatype py_error = FileNotFoundError | IndexError | TypeError

record sales_ids =
  category :: "string option"
  item :: "string option"
  yoy_growth_pct :: "real option"

record raw_row = sales_ids +
  gen_z_growth_pct :: "real option"
  millennial_growth_pct :: "real option"
  gen_x_growth_pct :: "real option"
  baby_boomer_growth_pct :: "real option"

record long_row = sales_ids +
  demographic :: string
  demo_growth_pct :: "real option"

section \<open>Demographic reshaper: \<open>load_tenniscore_sales\<close>\<close>

definition demo_cols :: "string list" where
  "demo_cols = [''gen_z_growth_pct'', ''millennial_growth_pct'',
                ''gen_x_growth_pct'', ''baby_boomer_growth_pct'']"

text \<open>\<open>df[name]\<close> for the four value columns, read off one row.\<close>

definition cell :: "string \<Rightarrow> raw_row \<Rightarrow> real option" where
  "cell name r =
     (if name = ''gen_z_growth_pct'' then gen_z_growth_pct r
      else if name = ''millennial_growth_pct'' then millennial_growth_pct r
      else if name = ''gen_x_growth_pct'' then gen_x_growth_pct r
      else if name = ''baby_boomer_growth_pct'' then baby_boomer_growth_pct r
      else None)"

definition mk_long ::
  "string option \<times> string option \<times> real option \<times> string \<times> real option \<Rightarrow> long_row" where
  "mk_long t = (case t of (c, i, y, v, x) \<Rightarrow>
     \<lparr>category = c, item = i, yoy_growth_pct = y, demographic = v, demo_growth_pct = x\<rparr>)"

text \<open>
  \<open>df.melt(id_vars=[category, item, yoy_growth_pct], value_vars=demo_cols,
  var_name='demographic', value_name='demo_growth_pct')\<close>, column by column as pandas
  builds it: every identifier column is tiled once per value column, the variable column
  repeats each value column's name once per input row, and the value column is the
  value columns laid end to end.
\<close>

definition melt :: "raw_row list \<Rightarrow> long_row list" where
  "melt df =
     (let N = length df; K = length demo_cols;
          category_col = concat (replicate K (map category df));
          item_col = concat (replicate K (map item df));
          yoy_col = concat (replicate K (map yoy_growth_pct df));
          variable_col = concat (map (\<lambda>name. replicate N name) demo_cols);
          value_col = concat (map (\<lambda>name. map (cell name) df) demo_cols)
      in map mk_long
           (zip category_col (zip item_col (zip yoy_col (zip variable_col value_col)))))"

text \<open>Python's \<open>str.replace(pat, rep)\<close>: every non-overlapping occurrence, left to right.\<close>

fun str_replace :: "string \<Rightarrow> string \<Rightarrow> string \<Rightarrow> string" where
  "str_replace pat rep [] = (if pat = [] then rep else [])"
| "str_replace pat rep (c # cs) =
     (if pat = [] then rep @ c # str_replace pat rep cs
      else if take (length pat) (c # cs) = pat
           then rep @ str_replace pat rep (drop (length pat) (c # cs))
      else c # str_replace pat rep cs)"

definition clean_names :: "long_row list \<Rightarrow> long_row list" where
  "clean_names melted =
     map (\<lambda>m. m\<lparr>demographic := str_replace ''_growth_pct'' '''' (demographic m)\<rparr>) melted"

text \<open>\<open>dropna()\<close>: a row is kept only when none of its cells is missing.\<close>

definition has_missing :: "long_row \<Rightarrow> bool" where
  "has_missing m \<longleftrightarrow>
     category m = None \<or> item m = None \<or> yoy_growth_pct m = None \<or> demo_growth_pct m = None"

definition dropna :: "long_row list \<Rightarrow> long_row list" where
  "dropna melted = filter (\<lambda>m. \<not> has_missing m) melted"

definition load_tenniscore_sales :: "raw_row list \<Rightarrow> long_row list" where
  "load_tenniscore_sales df = dropna (clean_names (melt df))"

subsection \<open>Vocabulary for the reshaper's properties\<close>

text \<open>
  The long row that input row \<open>r\<close> contributes for the value column \<open>name\<close>, after
  the suffix has been stripped from the label.
\<close>

definition emit :: "string \<Rightarrow> raw_row \<Rightarrow> long_row" where
  "emit name r = \<lparr>category = category r, item = item r, yoy_growth_pct = yoy_growth_pct r,
     demographic = str_replace ''_growth_pct'' '''' name, demo_growth_pct = cell name r\<rparr>"

definition ids_present :: "raw_row \<Rightarrow> bool" where
  "ids_present r \<longleftrightarrow> category r \<noteq> None \<and> item r \<noteq> None \<and> yoy_growth_pct r \<noteq> None"

definition demos_present :: "raw_row \<Rightarrow> bool" where
  "demos_present r \<longleftrightarrow> gen_z_growth_pct r \<noteq> None \<and> millennial_growth_pct r \<noteq> None
     \<and> gen_x_growth_pct r \<noteq> None \<and> baby_boomer_growth_pct r \<noteq> None"

definition complete_row :: "raw_row \<Rightarrow> bool" where
  "complete_row r \<longleftrightarrow> ids_present r \<and> demos_present r"

definition survives :: "string \<Rightarrow> raw_row \<Rightarrow> bool" where
  "survives name r \<longleftrightarrow> ids_present r \<and> cell name r \<noteq> None"

definition demo_missing :: "long_row \<Rightarrow> bool" where
  "demo_missing m \<longleftrightarrow> demo_growth_pct m = None"

definition gen_x_missing :: "raw_row \<Rightarrow> bool" where
  "gen_x_missing r \<longleftrightarrow> gen_x_growth_pct r = None"

text \<open>
  The order the specification describes: row-major over (input row, demographic).
  This definition follows the specification's words, not the source; it is only
  compared with \<open>load_tenniscore_sales\<close>.
\<close>

definition spec_row_major :: "raw_row list \<Rightarrow> long_row list" where
  "spec_row_major df =
     concat (map (\<lambda>r. dropna (map (\<lambda>name. emit name r) demo_cols)) df)"

text \<open>
  The re-pivot of the specification's round-trip law, also written from the
  specification's words (the repository has no such operation): group the long table
  by (category, item, yoy_growth_pct), one output row per group in order of first
  appearance, and spread each demographic label into its own column, taking the
  group's first value for that label and a missing value when it has none.
\<close>

type_synonym sales_key = "string option \<times> string option \<times> real option"

definition group_key :: "'a sales_ids_scheme \<Rightarrow> sales_key" where
  "group_key m = (category m, item m, yoy_growth_pct m)"

definition spread :: "string \<Rightarrow> sales_key \<Rightarrow> long_row list \<Rightarrow> real option" where
  "spread label k long =
     (case find (\<lambda>m. group_key m = k \<and> demographic m = label) long of
        None \<Rightarrow> None
      | Some m \<Rightarrow> demo_growth_pct m)"

definition repivot :: "long_row list \<Rightarrow> raw_row list" where
  "repivot long =
     map (\<lambda>k. case k of (c, i, y) \<Rightarrow>
            \<lparr>category = c, item = i, yoy_growth_pct = y,
             gen_z_growth_pct = spread ''gen_z'' k long,
             millennial_growth_pct = spread ''millennial'' k long,
             gen_x_growth_pct = spread ''gen_x'' k long,
             baby_boomer_growth_pct = spread ''baby_boomer'' k long\<rparr>)
         (remdups (map group_key long))"

subsection \<open>Example sales tables\<close>

definition sales_null_item :: "raw_row list" where
  "sales_null_item =
     [\<lparr>category = Some ''tops'', item = None, yoy_growth_pct = Some 10,
       gen_z_growth_pct = Some 1, millennial_growth_pct = Some 2,
       gen_x_growth_pct = Some 3, baby_boomer_growth_pct = Some 4\<rparr>]"

definition sales_two_rows :: "raw_row list" where
  "sales_two_rows =
     [\<lparr>category = Some ''skirts'', item = Some ''pleated skirt'', yoy_growth_pct = Some 45,
       gen_z_growth_pct = Some 1, millennial_growth_pct = Some 2,
       gen_x_growth_pct = Some 3, baby_boomer_growth_pct = Some 4\<rparr>,
      \<lparr>category = Some ''tops'', item = Some ''polo'', yoy_growth_pct = Some 30,
       gen_z_growth_pct = Some 5, millennial_growth_pct = Some 6,
       gen_x_growth_pct = Some 7, baby_boomer_growth_pct = Some 8\<rparr>]"

definition sales_dup_ids :: "raw_row list" where
  "sales_dup_ids =
     [\<lparr>category = Some ''tops'', item = Some ''polo'', yoy_growth_pct = Some 30,
       gen_z_growth_pct = Some 1, millennial_growth_pct = Some 2,
       gen_x_growth_pct = Some 3, baby_boomer_growth_pct = Some 4\<rparr>,
      \<lparr>category = Some ''tops'', item = Some ''polo'', yoy_growth_pct = Some 30,
       gen_z_growth_pct = Some 5, millennial_growth_pct = Some 6,
       gen_x_growth_pct = Some 7, baby_boomer_growth_pct = Some 8\<rparr>]"

definition sales_three_rows :: "raw_row list" where
  "sales_three_rows =
     [\<lparr>category = Some ''skirts'', item = Some ''pleated skirt'', yoy_growth_pct = Some 45,
       gen_z_growth_pct = Some 1, millennial_growth_pct = Some 2,
       gen_x_growth_pct = Some 3, baby_boomer_growth_pct = Some 4\<rparr>,
      \<lparr>category = Some ''tops'', item = Some ''polo'', yoy_growth_pct = Some 30,
       gen_z_growth_pct = Some 5, millennial_growth_pct = Some 6,
       gen_x_growth_pct = None, baby_boomer_growth_pct = Some 8\<rparr>,
      \<lparr>category = Some ''shoes'', item = Some ''court sneaker'', yoy_growth_pct = Some 30,
       gen_z_growth_pct = Some 9, millennial_growth_pct = Some 10,
       gen_x_growth_pct = Some 11, baby_boomer_growth_pct = Some 12\<rparr>]"

section \<open>Market merger: \<open>load_market_data\<close>\<close>

text \<open>
  A yearly table is a list of rows, each an integer \<open>year\<close> key paired with the row's
  other columns.  \<open>pd.merge(left, right, on='year', how='outer')\<close> is modelled as
  pandas documents it: the keys of the result are the union of both key columns in
  ascending order; a key found on both sides yields every pairing of its left and
  right rows, a key found on one side only yields that side's rows with the other
  side's columns missing (\<open>None\<close>).
\<close>

type_synonym 'a yearly = "(int \<times> 'a) list"
type_synonym ('a, 'b) merged_row = "int \<times> 'a option \<times> 'b option"

definition rows_of :: "int \<Rightarrow> 'a yearly \<Rightarrow> 'a list" where
  "rows_of y t = map snd (filter (\<lambda>r. fst r = y) t)"

definition outer_rows :: "int \<Rightarrow> 'a list \<Rightarrow> 'b list \<Rightarrow> ('a, 'b) merged_row list" where
  "outer_rows y ls rs =
     (if rs = [] then map (\<lambda>l. (y, Some l, None)) ls
      else if ls = [] then map (\<lambda>r. (y, None, Some r)) rs
      else concat (map (\<lambda>l. map (\<lambda>r. (y, Some l, Some r)) rs) ls))"

definition pd_merge_outer :: "'a yearly \<Rightarrow> 'b yearly \<Rightarrow> ('a, 'b) merged_row list" where
  "pd_merge_outer left right =
     concat (map (\<lambda>y. outer_rows y (rows_of y left) (rows_of y right))
                 (sort (remdups (map fst left @ map fst right))))"

definition load_market_data :: "'a yearly \<Rightarrow> 'b yearly \<Rightarrow> ('a, 'b) merged_row list" where
  "load_market_data sportswear jersey = pd_merge_outer sportswear jersey"

text \<open>The columns of the two market files, as the dashboard reads them.\<close>

record sportswear_cols =
  market_value_billion_usd :: "real option"
  segment :: "string option"

record jersey_cols =
  sports_jersey_market_billion_usd :: "real option"
  football_jersey_market_billion_usd :: "real option"

type_synonym market_row = "(sportswear_cols, jersey_cols) merged_row"

definition year :: "('a, 'b) merged_row \<Rightarrow> int" where
  "year r = fst r"

definition left_cols :: "('a, 'b) merged_row \<Rightarrow> 'a option" where
  "left_cols r = fst (snd r)"

definition right_cols :: "('a, 'b) merged_row \<Rightarrow> 'b option" where
  "right_cols r = snd (snd r)"

definition years :: "('a, 'b) merged_row list \<Rightarrow> int set" where
  "years market = set (map year market)"

text \<open>Exchanging the two sides of a merged row: the same cells in the other column order.\<close>

definition swap_sides :: "('a, 'b) merged_row \<Rightarrow> ('b, 'a) merged_row" where
  "swap_sides r = (year r, right_cols r, left_cols r)"

text \<open>\<open>row['market_value_billion_usd']\<close> on a row of the merged table.\<close>

definition market_value :: "market_row \<Rightarrow> real option" where
  "market_value r =
     (case left_cols r of None \<Rightarrow> None | Some s \<Rightarrow> market_value_billion_usd s)"

section \<open>Dates and floating point\<close>

text \<open>
  A timestamp is a calendar day, counted as Python's proleptic Gregorian ordinal
  (day 1 is 0001-01-01, a Monday); the difference of two timestamps is their
  \<open>.days\<close>.
\<close>

definition is_leap :: "int \<Rightarrow> bool" where
  "is_leap y \<longleftrightarrow> y mod 4 = 0 \<and> (y mod 100 \<noteq> 0 \<or> y mod 400 = 0)"

definition days_before_year :: "int \<Rightarrow> int" where
  "days_before_year y = (y - 1) * 365 + (y - 1) div 4 - (y - 1) div 100 + (y - 1) div 400"

definition days_before_month :: "int \<Rightarrow> int \<Rightarrow> int" where
  "days_before_month y m =
     sum_list (take (nat (m - 1)) [31, 28, 31, 30, 31, 30, 31, 31, 30, 31, 30, 31])
       + (if 2 < m \<and> is_leap y then 1 else 0)"

definition Timestamp :: "int \<Rightarrow> int \<Rightarrow> int \<Rightarrow> int" where
  "Timestamp y m d = days_before_year y + days_before_month y m + d"

definition weekday :: "int \<Rightarrow> int" where
  "weekday n = (n + 6) mod 7"

text \<open>
  Double precision enters as a parameter: \<open>rnd\<close> rounds the exact result of
  \<open>+\<close>, \<open>-\<close>, \<open>*\<close>, \<open>/\<close> and of a decimal literal to a double, \<open>pow2\<close> is the
  library's \<open>x ** 2\<close>.  The properties below assume of them only what holds of IEEE 754
  round-to-nearest: rounding is monotone, integers up to 2^53 are exact, and the
  square of zero is zero.
\<close>

record float_ops =
  rnd :: "real \<Rightarrow> real"
  pow2 :: "real \<Rightarrow> real"

definition fadd :: "float_ops \<Rightarrow> real \<Rightarrow> real \<Rightarrow> real" where
  "fadd F a b = rnd F (a + b)"

definition fsub :: "float_ops \<Rightarrow> real \<Rightarrow> real \<Rightarrow> real" where
  "fsub F a b = rnd F (a - b)"

definition fmul :: "float_ops \<Rightarrow> real \<Rightarrow> real \<Rightarrow> real" where
  "fmul F a b = rnd F (a * b)"

definition fdiv :: "float_ops \<Rightarrow> real \<Rightarrow> real \<Rightarrow> real" where
  "fdiv F a b = rnd F (a / b)"

definition ieee_like :: "float_ops \<Rightarrow> bool" where
  "ieee_like F \<longleftrightarrow>
     (\<forall>x y. x \<le> y \<longrightarrow> rnd F x \<le> rnd F y) \<and>
     (\<forall>n::int. \<bar>n\<bar> \<le> 2 ^ 53 \<longrightarrow> rnd F (of_int n) = of_int n) \<and>
     pow2 F 0 = 0"

definition exact_ops :: float_ops where
  "exact_ops = \<lparr>rnd = (\<lambda>x. x), pow2 = (\<lambda>x. x * x)\<rparr>"

text \<open>Python's \<open>int(x)\<close> on a float: truncation toward zero.\<close>

definition py_int :: "real \<Rightarrow> int" where
  "py_int x = (if 0 \<le> x then \<lfloor>x\<rfloor> else \<lceil>x\<rceil>)"

subsection \<open>Example yearly tables\<close>

definition sportswear_years :: "nat yearly" where
  "sportswear_years = [(2023, 1), (2024, 2), (2033, 3)]"

definition jersey_years :: "nat yearly" where
  "jersey_years = [(2024, 4), (2025, 5)]"


section \<open>Trends table and summary derivation: \<open>create_summary_stats\<close>\<close>

text \<open>
  The trends table has the columns the synthetic generator writes; \<open>date\<close> is the
  parsed timestamp.  (Its \<open>category\<close> column is named \<open>trends_category\<close> here, the
  sales table already has a \<open>category\<close>.)
\<close>

record trends_row =
  date :: int
  tenniscore :: int
  tennis_skirt :: int
  soccer_jersey :: int
  football_kit :: int
  womens_activewear :: int
  trends_category :: string

record summary =
  tenniscore_peak_growth :: "real option"
  market_2024_billion :: "real option"
  market_2033_billion :: "real option"
  market_growth_rate :: real
  tenniscore_search_peak :: "int option"
  soccer_jersey_trend_current :: "real option"
  challengers_media_value_million :: real

text \<open>\<open>df.iloc[0]\<close>: the first row, IndexError on an empty frame.\<close>

definition iloc0 :: "'a list \<Rightarrow> py_error + 'a" where
  "iloc0 xs = (case xs of [] \<Rightarrow> Inl IndexError | x # _ \<Rightarrow> Inr x)"

text \<open>
  \<open>df.nlargest(n, 'yoy_growth_pct')\<close>: the rows in descending order of the column,
  ties in input order, rows with a missing value last; the first \<open>n\<close> of them.
\<close>

definition yoy_desc_key :: "long_row \<Rightarrow> real" where
  "yoy_desc_key m = (case yoy_growth_pct m of None \<Rightarrow> 0 | Some v \<Rightarrow> - v)"

definition nlargest :: "nat \<Rightarrow> long_row list \<Rightarrow> long_row list" where
  "nlargest n df =
     take n (sort_key yoy_desc_key (filter (\<lambda>m. yoy_growth_pct m \<noteq> None) df)
             @ filter (\<lambda>m. yoy_growth_pct m = None) df)"

text \<open>
  The dtype of \<open>yoy_growth_pct\<close>.  \<open>read_csv\<close> gives the column a numeric dtype when
  the sales file has data rows and the object dtype when the file holds only its header;
  \<open>melt\<close> and \<open>dropna\<close> keep the dtype.  \<open>nlargest\<close> refuses an object column with
  TypeError before it looks at any row.
\<close>

definition yoy_is_numeric :: "raw_row list \<Rightarrow> bool" where
  "yoy_is_numeric df \<longleftrightarrow> df \<noteq> []"

definition nlargest_checked :: "bool \<Rightarrow> nat \<Rightarrow> long_row list \<Rightarrow> py_error + long_row list" where
  "nlargest_checked numeric n df = (if numeric then Inr (nlargest n df) else Inl TypeError)"

text \<open>\<open>Series.max()\<close> and \<open>Series.mean()\<close> of an integer column; NaN on an empty one.\<close>

definition series_max :: "int list \<Rightarrow> int option" where
  "series_max xs = (case xs of [] \<Rightarrow> None | x # rest \<Rightarrow> Some (fold max rest x))"

definition series_mean :: "float_ops \<Rightarrow> int list \<Rightarrow> real option" where
  "series_mean F xs =
     (if xs = [] then None
      else Some (fdiv F (of_int (sum_list xs)) (of_nat (length xs))))"

text \<open>
  The raw data directory: each file is either absent (\<open>None\<close>, \<open>read_csv\<close> raises
  FileNotFoundError) or holds a table.  The rows of the Challengers file are not looked
  into and stay a type parameter.
\<close>

record 'c raw_dir =
  tenniscore_sales_csv :: "raw_row list option"
  womens_sportswear_market_csv :: "sportswear_cols yearly option"
  jersey_market_csv :: "jersey_cols yearly option"
  google_trends_csv :: "trends_row list option"
  challengers_impact_csv :: "'c list option"

definition read_csv :: "'a option \<Rightarrow> py_error + 'a" where
  "read_csv f = (case f of None \<Rightarrow> Inl FileNotFoundError | Some df \<Rightarrow> Inr df)"

text \<open>The four loader methods, reading from the raw directory.\<close>

definition load_tenniscore_sales_from :: "'c raw_dir \<Rightarrow> py_error + long_row list" where
  "load_tenniscore_sales_from raw =
     (case read_csv (tenniscore_sales_csv raw) of
        Inl e \<Rightarrow> Inl e
      | Inr df \<Rightarrow> Inr (load_tenniscore_sales df))"

definition load_market_data_from :: "'c raw_dir \<Rightarrow> py_error + market_row list" where
  "load_market_data_from raw =
     (case read_csv (womens_sportswear_market_csv raw) of
        Inl e \<Rightarrow> Inl e
      | Inr sportswear \<Rightarrow>
          (case read_csv (jersey_market_csv raw) of
             Inl e \<Rightarrow> Inl e
           | Inr jersey \<Rightarrow> Inr (load_market_data sportswear jersey)))"

definition load_trends_data :: "'c raw_dir \<Rightarrow> py_error + trends_row list" where
  "load_trends_data raw = read_csv (google_trends_csv raw)"

definition load_challengers_impact :: "'c raw_dir \<Rightarrow> py_error + 'c list" where
  "load_challengers_impact raw = read_csv (challengers_impact_csv raw)"

definition year_rows :: "int \<Rightarrow> ('a, 'b) merged_row list \<Rightarrow> ('a, 'b) merged_row list" where
  "year_rows y market = filter (\<lambda>r. year r = y) market"

definition current_rows :: "trends_row list \<Rightarrow> trends_row list" where
  "current_rows trends = filter (\<lambda>r. Timestamp 2026 1 1 \<le> date r) trends"

text \<open>Whether the frame that \<open>load_tenniscore_sales\<close> returns has a numeric \<open>yoy_growth_pct\<close>.\<close>

definition sales_yoy_numeric :: "'c raw_dir \<Rightarrow> bool" where
  "sales_yoy_numeric raw =
     (case tenniscore_sales_csv raw of None \<Rightarrow> False | Some df \<Rightarrow> yoy_is_numeric df)"

definition create_summary_stats :: "float_ops \<Rightarrow> 'c raw_dir \<Rightarrow> py_error + summary" where
  "create_summary_stats F raw =
     (case load_tenniscore_sales_from raw of
        Inl e \<Rightarrow> Inl e
      | Inr tenniscore_df \<Rightarrow>
     (case nlargest_checked (sales_yoy_numeric raw) 5 tenniscore_df of
        Inl e \<Rightarrow> Inl e
      | Inr largest \<Rightarrow>
     let top_items = map (\<lambda>m. (item m, yoy_growth_pct m)) largest in
     (case load_market_data_from raw of
        Inl e \<Rightarrow> Inl e
      | Inr market \<Rightarrow>
     (case iloc0 (year_rows 2024 market) of
        Inl e \<Rightarrow> Inl e
      | Inr latest_market \<Rightarrow>
     (case iloc0 (year_rows 2033 market) of
        Inl e \<Rightarrow> Inl e
      | Inr projected_2033 \<Rightarrow>
     (case load_trends_data raw of
        Inl e \<Rightarrow> Inl e
      | Inr trends \<Rightarrow>
     let peak_tenniscore = series_max (map tenniscore trends);
         current_soccer = series_mean F (map soccer_jersey (current_rows trends)) in
     (case iloc0 top_items of
        Inl e \<Rightarrow> Inl e
      | Inr top_row \<Rightarrow>
          Inr \<lparr>tenniscore_peak_growth = snd top_row,
               market_2024_billion = market_value latest_market,
               market_2033_billion = market_value projected_2033,
               market_growth_rate = 7,
               tenniscore_search_peak = peak_tenniscore,
               soccer_jersey_trend_current = current_soccer,
               challengers_media_value_million = 85 / 2\<rparr>)))))))"

section \<open>The full run: \<open>process_all\<close>\<close>

text \<open>
  The processed directory maps a file name to the table written under it; \<open>to_csv\<close>
  replaces the file.  \<open>process_all\<close> returns the directory it leaves behind together
  with either the exception that ended the run or the five tables.
\<close>

datatype 'c csv_table =
    SalesCsv "long_row list"
  | MarketCsv "market_row list"
  | TrendsCsv "trends_row list"
  | ChallengersCsv "'c list"
  | SummaryCsv "summary list"

type_synonym 'c processed_dir = "string \<rightharpoonup> 'c csv_table"

record 'c processed_data =
  tenniscore_data :: "long_row list"
  market_data :: "market_row list"
  trends_data :: "trends_row list"
  challengers_data :: "'c list"
  summary_data :: "summary list"

definition process_all ::
  "float_ops \<Rightarrow> 'c raw_dir \<Rightarrow> 'c processed_dir \<Rightarrow> 'c processed_dir \<times> (py_error + 'c processed_data)" where
  "process_all F raw out0 =
     (case load_tenniscore_sales_from raw of
        Inl e \<Rightarrow> (out0, Inl e)
      | Inr tenniscore_df \<Rightarrow>
     let out1 = out0(''tenniscore_processed.csv'' \<mapsto> SalesCsv tenniscore_df) in
     (case load_market_data_from raw of
        Inl e \<Rightarrow> (out1, Inl e)
      | Inr market \<Rightarrow>
     let out2 = out1(''market_combined.csv'' \<mapsto> MarketCsv market) in
     (case load_trends_data raw of
        Inl e \<Rightarrow> (out2, Inl e)
      | Inr trends \<Rightarrow>
     let out3 = out2(''trends_processed.csv'' \<mapsto> TrendsCsv trends) in
     (case load_challengers_impact raw of
        Inl e \<Rightarrow> (out3, Inl e)
      | Inr challengers \<Rightarrow>
     let out4 = out3(''challengers_processed.csv'' \<mapsto> ChallengersCsv challengers) in
     (case create_summary_stats F raw of
        Inl e \<Rightarrow> (out4, Inl e)
      | Inr summary_row \<Rightarrow>
          (out4(''summary_stats.csv'' \<mapsto> SummaryCsv [summary_row]),
           Inr \<lparr>tenniscore_data = tenniscore_df, market_data = market,
                trends_data = trends, challengers_data = challengers,
                summary_data = [summary_row]\<rparr>))))))"

section \<open>Synthetic trends generator: \<open>generate_sample_data\<close>\<close>

text \<open>\<open>pd.date_range(start, end, freq='W')\<close>: the Sundays from \<open>start\<close> to \<open>end\<close>.\<close>

definition date_range_W :: "int \<Rightarrow> int \<Rightarrow> int list" where
  "date_range_W start stop = filter (\<lambda>d. weekday d = 6) [start..stop]"

definition tenniscore_boost :: "float_ops \<Rightarrow> int \<Rightarrow> real" where
  "tenniscore_boost F d =
     fmul F 60 (fsub F 1 (pow2 F (fdiv F (of_int (d - Timestamp 2024 4 26)) 120)))"

definition tenniscore_val :: "float_ops \<Rightarrow> int \<Rightarrow> real" where
  "tenniscore_val F d =
     max (if Timestamp 2024 4 1 \<le> d \<and> d \<le> Timestamp 2024 8 1
          then fadd F 20 (tenniscore_boost F d) else 20 + 0)
         20"

definition soccer_val :: "float_ops \<Rightarrow> int \<Rightarrow> real" where
  "soccer_val F d =
     (let days_to_wc = Timestamp 2026 6 11 - d in
      if days_to_wc < 365
      then fadd F 30 (fmul F 50 (fsub F 1 (fdiv F (of_int days_to_wc) 365)))
      else 30 + 0)"

definition womens_val :: "float_ops \<Rightarrow> int \<Rightarrow> real" where
  "womens_val F d =
     (let days_from_start = d - Timestamp 2023 1 1 in
      fadd F 40 (fdiv F (of_int days_from_start) 30))"

definition sample_row :: "float_ops \<Rightarrow> int \<Rightarrow> trends_row" where
  "sample_row F d =
     \<lparr>date = d,
      tenniscore = py_int (tenniscore_val F d),
      tennis_skirt = py_int (fmul F (tenniscore_val F d) (rnd F (8 / 10))),
      soccer_jersey = py_int (soccer_val F d),
      football_kit = py_int (fmul F (soccer_val F d) (rnd F (7 / 10))),
      womens_activewear = py_int (womens_val F d),
      trends_category = ''search_trends''\<rparr>"

definition sample_dates :: "int list" where
  "sample_dates = date_range_W (Timestamp 2023 1 1) (Timestamp 2026 2 1)"

definition generate_sample_data :: "float_ops \<Rightarrow> trends_row list" where
  "generate_sample_data F = map (sample_row F) sample_dates"

section \<open>Vocabulary and example inputs for the summary and the full run\<close>

definition files_present ::
  "'c raw_dir \<Rightarrow> raw_row list \<Rightarrow> sportswear_cols yearly \<Rightarrow> jersey_cols yearly
     \<Rightarrow> trends_row list \<Rightarrow> bool" where
  "files_present raw sales sportswear jersey trends \<longleftrightarrow>
     tenniscore_sales_csv raw = Some sales \<and>
     womens_sportswear_market_csv raw = Some sportswear \<and>
     jersey_market_csv raw = Some jersey \<and>
     google_trends_csv raw = Some trends"

text \<open>The first row of the merged table for a year, if it has one.\<close>

definition row_of_year :: "int \<Rightarrow> ('a, 'b) merged_row list \<Rightarrow> ('a, 'b) merged_row option" where
  "row_of_year y market = find (\<lambda>r. year r = y) market"

text \<open>
  The five derivations of a run, each on its own, as the table it would write, and the
  five output files in the order \<open>process_all\<close> writes them.
\<close>

definition derivations :: "float_ops \<Rightarrow> 'c raw_dir \<Rightarrow> (py_error + 'c csv_table) list" where
  "derivations F raw =
     [map_sum id SalesCsv (load_tenniscore_sales_from raw),
      map_sum id MarketCsv (load_market_data_from raw),
      map_sum id TrendsCsv (load_trends_data raw),
      map_sum id ChallengersCsv (load_challengers_impact raw),
      map_sum id (\<lambda>s. SummaryCsv [s]) (create_summary_stats F raw)]"

definition output_files :: "string list" where
  "output_files =
     [''tenniscore_processed.csv'', ''market_combined.csv'', ''trends_processed.csv'',
      ''challengers_processed.csv'', ''summary_stats.csv'']"

definition first_failure :: "float_ops \<Rightarrow> 'c raw_dir \<Rightarrow> nat" where
  "first_failure F raw = length (takeWhile (\<lambda>r. \<not> isl r) (derivations F raw))"

definition write_tables ::
  "(string \<times> (py_error + 'c csv_table)) list \<Rightarrow> 'c processed_dir \<Rightarrow> 'c processed_dir" where
  "write_tables ws out0 = fold (\<lambda>w out. out(fst w \<mapsto> projr (snd w))) ws out0"

subsection \<open>Example raw directories\<close>

definition empty_dir :: "unit processed_dir" where
  "empty_dir = Map.empty"

definition sportswear_table :: "sportswear_cols yearly" where
  "sportswear_table =
     [(2023, \<lparr>market_value_billion_usd = Some 92, segment = Some ''h''\<rparr>),
      (2024, \<lparr>market_value_billion_usd = Some 99, segment = Some ''h''\<rparr>),
      (2033, \<lparr>market_value_billion_usd = Some 250, segment = Some ''f''\<rparr>)]"

definition jersey_table :: "jersey_cols yearly" where
  "jersey_table =
     [(2024, \<lparr>sports_jersey_market_billion_usd = Some 7,
              football_jersey_market_billion_usd = Some 3\<rparr>),
      (2025, \<lparr>sports_jersey_market_billion_usd = Some 8,
              football_jersey_market_billion_usd = Some 4\<rparr>)]"

definition trends_table :: "trends_row list" where
  "trends_table =
     [\<lparr>date = Timestamp 2023 1 1, tenniscore = 20, tennis_skirt = 16, soccer_jersey = 30,
       football_kit = 21, womens_activewear = 40, trends_category = ''search_trends''\<rparr>,
      \<lparr>date = Timestamp 2026 1 1, tenniscore = 20, tennis_skirt = 16, soccer_jersey = 40,
       football_kit = 28, womens_activewear = 76, trends_category = ''search_trends''\<rparr>,
      \<lparr>date = Timestamp 2026 2 1, tenniscore = 20, tennis_skirt = 16, soccer_jersey = 45,
       football_kit = 31, womens_activewear = 77, trends_category = ''search_trends''\<rparr>]"

definition trends_old :: "trends_row list" where
  "trends_old =
     [\<lparr>date = Timestamp 2023 1 1, tenniscore = 20, tennis_skirt = 16, soccer_jersey = 30,
       football_kit = 21, womens_activewear = 40, trends_category = ''search_trends''\<rparr>]"

definition raw_ok :: "unit raw_dir" where
  "raw_ok =
     \<lparr>tenniscore_sales_csv = Some sales_two_rows,
      womens_sportswear_market_csv = Some sportswear_table,
      jersey_market_csv = Some jersey_table,
      google_trends_csv = Some trends_table,
      challengers_impact_csv = Some []\<rparr>"

definition raw_sales_dropped :: "unit raw_dir" where
  "raw_sales_dropped = raw_ok\<lparr>tenniscore_sales_csv := Some sales_null_item\<rparr>"

definition raw_no_sales_file :: "unit raw_dir" where
  "raw_no_sales_file = raw_ok\<lparr>tenniscore_sales_csv := None\<rparr>"

definition raw_no_current :: "unit raw_dir" where
  "raw_no_current = raw_ok\<lparr>google_trends_csv := Some trends_old\<rparr>"

definition sportswear_until_2024 :: "sportswear_cols yearly" where
  "sportswear_until_2024 =
     [(2023, \<lparr>market_value_billion_usd = Some 92, segment = Some ''h''\<rparr>),
      (2024, \<lparr>market_value_billion_usd = Some 99, segment = Some ''h''\<rparr>)]"

definition raw_no_2033 :: "unit raw_dir" where
  "raw_no_2033 = raw_ok\<lparr>womens_sportswear_market_csv := Some sportswear_until_2024\<rparr>"

definition raw_header_only_sales :: "unit raw_dir" where
  "raw_header_only_sales = raw_no_2033\<lparr>tenniscore_sales_csv := Some []\<rparr>"

section \<open>Properties of the demographic reshaper\<close>

subsection \<open>The melted table, row by row\<close>

lemma zip_replicate_map: "zip (replicate (length xs) c) (map g xs) = map (\<lambda>x. (c, g x)) xs"
  by (induction xs) auto

lemma zip_map_same: "zip (map f xs) (map g xs) = map (\<lambda>x. (f x, g x)) xs"
  by (induction xs) auto

lemma tile4: "concat (replicate 4 xs) = xs @ xs @ xs @ xs"
  by (simp add: numeral_eq_Suc)

lemma emitted_rowwise:
  "clean_names (melt df) = concat (map (\<lambda>name. map (emit name) df) demo_cols)"
proof -
  have K: "length demo_cols = 4" by (simp add: demo_cols_def)
  show ?thesis
    unfolding melt_def Let_def K tile4 clean_names_def
    by (simp add: demo_cols_def zip_replicate_map zip_map_same mk_long_def emit_def)
qed

lemma length_emitted: "length (clean_names (melt df)) = 4 * length df"
  by (simp add: emitted_rowwise demo_cols_def)

lemma has_missing_emit: "has_missing (emit name r) \<longleftrightarrow> \<not> survives name r"
  by (auto simp: has_missing_def emit_def survives_def ids_present_def)

lemma dropna_emit: "dropna (map (emit name) df) = map (emit name) (filter (survives name) df)"
  by (induction df) (simp_all add: dropna_def has_missing_emit)

lemma dropna_append: "dropna (xs @ ys) = dropna xs @ dropna ys"
  by (simp add: dropna_def)

lemma load_rowwise:
  "load_tenniscore_sales df =
     concat (map (\<lambda>name. map (emit name) (filter (survives name) df)) demo_cols)"
  by (simp add: load_tenniscore_sales_def emitted_rowwise demo_cols_def dropna_append dropna_emit)

lemma demo_labels:
  "map (str_replace ''_growth_pct'' '''') demo_cols
     = [''gen_z'', ''millennial'', ''gen_x'', ''baby_boomer'']"
  by (simp add: demo_cols_def)

lemma group_key_emit: "group_key (emit name r) = group_key r"
  by (simp add: group_key_def emit_def)

lemma demographic_emit: "demographic (emit name r) = str_replace ''_growth_pct'' [] name"
  by (simp add: emit_def)

subsection \<open>Row count\<close>

lemma ids_present_missing:
  assumes "\<forall>r\<in>set df. ids_present r"
  shows "filter has_missing (clean_names (melt df)) = filter demo_missing (clean_names (melt df))"
proof (rule filter_cong[OF refl])
  fix m assume "m \<in> set (clean_names (melt df))"
  then obtain name r where "r \<in> set df" "m = emit name r"
    by (auto simp: emitted_rowwise)
  with assms show "has_missing m = demo_missing m"
    by (auto simp: has_missing_def demo_missing_def emit_def ids_present_def)
qed

lemma length_block_full:
  assumes "\<forall>r\<in>set df. survives name r"
  shows "length (filter (survives name) df) = length df"
  using assms by (induction df) auto

lemma length_filter_compl: "length (filter P xs) + length (filter (\<lambda>x. \<not> P x) xs) = length xs"
  by (induction xs) auto

text \<open>
  C1, the claim as stated, fails: \<open>dropna\<close> looks at every column, so a row whose
  \<open>item\<close> is missing loses all four of its long rows although none of them has a
  missing \<open>demo_growth_pct\<close>.  For the one-row table \<open>sales_null_item\<close> the output
  is empty, where the claimed count is 4 * 1 - 0 = 4.
\<close>

theorem reshaper_row_count_counterexample:
  "length (load_tenniscore_sales sales_null_item) = 0
   \<and> length (filter demo_missing (clean_names (melt sales_null_item))) = 0
   \<and> length (load_tenniscore_sales sales_null_item)
       \<noteq> 4 * length sales_null_item
           - length (filter demo_missing (clean_names (melt sales_null_item)))"
  by (simp add: load_rowwise emitted_rowwise sales_null_item_def demo_cols_def survives_def
      ids_present_def demo_missing_def emit_def cell_def)

text \<open>
  C1, amended: the output has 4 rows per input row minus the emitted rows with a missing
  value in any column (category, item, yoy_growth_pct or demo_growth_pct).  When no
  identifier cell is missing these are exactly the emitted rows whose demo_growth_pct
  is missing, which is the count the claim names; and a 3-row input whose only missing
  cell is one gen_x_growth_pct yields exactly 11 rows.
\<close>

theorem reshaper_row_count:
  "length (load_tenniscore_sales df) + length (filter has_missing (clean_names (melt df)))
     = 4 * length df
   \<and> ((\<forall>r\<in>set df. ids_present r) \<longrightarrow>
        length (load_tenniscore_sales df) + length (filter demo_missing (clean_names (melt df)))
          = 4 * length df)
   \<and> ((\<forall>r\<in>set df. ids_present r \<and> gen_z_growth_pct r \<noteq> None \<and> millennial_growth_pct r \<noteq> None
                      \<and> baby_boomer_growth_pct r \<noteq> None)
        \<and> length df = 3 \<and> length (filter gen_x_missing df) = 1 \<longrightarrow>
        length (load_tenniscore_sales df) = 11)"
proof (intro conjI impI)
  show total: "length (load_tenniscore_sales df) + length (filter has_missing (clean_names (melt df)))
     = 4 * length df"
    using length_filter_compl[of "\<lambda>m. \<not> has_missing m" "clean_names (melt df)"]
    by (simp add: load_tenniscore_sales_def dropna_def length_emitted)
  show "length (load_tenniscore_sales df) + length (filter demo_missing (clean_names (melt df)))
          = 4 * length df" if "\<forall>r\<in>set df. ids_present r"
    using total ids_present_missing[OF that] by simp
next
  assume h: "(\<forall>r\<in>set df. ids_present r \<and> gen_z_growth_pct r \<noteq> None \<and> millennial_growth_pct r \<noteq> None
                      \<and> baby_boomer_growth_pct r \<noteq> None)
        \<and> length df = 3 \<and> length (filter gen_x_missing df) = 1"
  have z: "length (filter (survives ''gen_z_growth_pct'') df) = length df"
    using h by (intro length_block_full) (simp add: survives_def cell_def)
  have m: "length (filter (survives ''millennial_growth_pct'') df) = length df"
    using h by (intro length_block_full) (simp add: survives_def cell_def)
  have b: "length (filter (survives ''baby_boomer_growth_pct'') df) = length df"
    using h by (intro length_block_full) (simp add: survives_def cell_def)
  have "filter (survives ''gen_x_growth_pct'') df = filter (\<lambda>r. \<not> gen_x_missing r) df"
    using h by (intro filter_cong) (auto simp: survives_def cell_def gen_x_missing_def)
  then have x: "length (filter (survives ''gen_x_growth_pct'') df) + 1 = length df"
    using length_filter_compl[of gen_x_missing df] h by simp
  show "length (load_tenniscore_sales df) = 11"
    using z m b x h by (simp add: load_rowwise demo_cols_def)
qed

theorem reshaper_row_count_witness:
  "list_all ids_present sales_three_rows
   \<and> length sales_three_rows = 3
   \<and> length (filter gen_x_missing sales_three_rows) = 1
   \<and> length (load_tenniscore_sales sales_three_rows) = 11
   \<and> length (load_tenniscore_sales sales_three_rows)
       + length (filter demo_missing (clean_names (melt sales_three_rows))) = 12"
proof -
  have h: "(\<forall>r\<in>set sales_three_rows. ids_present r \<and> gen_z_growth_pct r \<noteq> None
        \<and> millennial_growth_pct r \<noteq> None \<and> baby_boomer_growth_pct r \<noteq> None)
   \<and> length sales_three_rows = 3
   \<and> length (filter gen_x_missing sales_three_rows) = 1"
    by (simp add: sales_three_rows_def ids_present_def gen_x_missing_def)
  then have i: "\<forall>r\<in>set sales_three_rows. ids_present r" by blast
  from reshaper_row_count[of sales_three_rows] h i show ?thesis
    by (simp add: list_all_iff)
qed

subsection \<open>Row order\<close>

text \<open>
  C2, the claim as stated, fails: pandas lays the melted table out one value column
  after the other, not one input row after the other.  For the two complete rows of
  \<open>sales_two_rows\<close> the second output row is the second input row's gen_z row, not
  the first input row's millennial row.
\<close>

theorem reshaper_row_major_counterexample:
  "map item (load_tenniscore_sales sales_two_rows)
     = [Some ''pleated skirt'', Some ''polo'', Some ''pleated skirt'', Some ''polo'',
        Some ''pleated skirt'', Some ''polo'', Some ''pleated skirt'', Some ''polo'']
   \<and> map demographic (load_tenniscore_sales sales_two_rows)
     = [''gen_z'', ''gen_z'', ''millennial'', ''millennial'',
        ''gen_x'', ''gen_x'', ''baby_boomer'', ''baby_boomer'']
   \<and> map demographic (spec_row_major sales_two_rows)
     = [''gen_z'', ''millennial'', ''gen_x'', ''baby_boomer'',
        ''gen_z'', ''millennial'', ''gen_x'', ''baby_boomer'']
   \<and> load_tenniscore_sales sales_two_rows \<noteq> spec_row_major sales_two_rows"
proof -
  have a: "map item (load_tenniscore_sales sales_two_rows)
     = [Some ''pleated skirt'', Some ''polo'', Some ''pleated skirt'', Some ''polo'',
        Some ''pleated skirt'', Some ''polo'', Some ''pleated skirt'', Some ''polo'']"
    by (simp add: load_rowwise sales_two_rows_def demo_cols_def survives_def
        ids_present_def emit_def cell_def)
  have b: "map demographic (load_tenniscore_sales sales_two_rows)
     = [''gen_z'', ''gen_z'', ''millennial'', ''millennial'',
        ''gen_x'', ''gen_x'', ''baby_boomer'', ''baby_boomer'']"
    by (simp add: load_rowwise sales_two_rows_def demo_cols_def survives_def
        ids_present_def emit_def cell_def)
  have c: "map demographic (spec_row_major sales_two_rows)
     = [''gen_z'', ''millennial'', ''gen_x'', ''baby_boomer'',
        ''gen_z'', ''millennial'', ''gen_x'', ''baby_boomer'']"
    by (simp add: spec_row_major_def dropna_def sales_two_rows_def demo_cols_def
        has_missing_def emit_def cell_def)
  from b c have "map demographic (load_tenniscore_sales sales_two_rows)
      \<noteq> map demographic (spec_row_major sales_two_rows)"
    by simp
  then have "load_tenniscore_sales sales_two_rows \<noteq> spec_row_major sales_two_rows"
    by metis
  with a b c show ?thesis by simp
qed

text \<open>
  C2, amended: the output is ordered by demographic first and input row second.  It is
  four consecutive blocks, one per demographic column in declaration order (gen_z,
  millennial, gen_x, baby_boomer), and each block holds the surviving input rows in
  input order.
\<close>

theorem reshaper_demographic_major:
  "load_tenniscore_sales df =
     concat (map (\<lambda>name. map (emit name) (filter (survives name) df)) demo_cols)
   \<and> map (str_replace ''_growth_pct'' '''') demo_cols
       = [''gen_z'', ''millennial'', ''gen_x'', ''baby_boomer'']"
  by (simp add: load_rowwise demo_labels)

subsection \<open>Round trip\<close>

lemma find_append_case:
  "find P (xs @ ys) = (case find P xs of None \<Rightarrow> find P ys | Some x \<Rightarrow> Some x)"
  by (induction xs) auto

lemma find_other_block:
  assumes "str_replace ''_growth_pct'' '''' name \<noteq> label"
  shows "find (\<lambda>m. group_key m = k \<and> demographic m = label) (map (emit name) df) = None"
  using assms by (induction df) (auto simp: emit_def)

lemma find_own_block:
  assumes "distinct (map group_key df)" "r \<in> set df"
    "str_replace ''_growth_pct'' [] name = label"
  shows "find (\<lambda>m. group_key m = group_key r \<and> demographic m = label) (map (emit name) df)
           = Some (emit name r)"
  using assms
proof (induction df)
  case Nil then show ?case by simp
next
  case (Cons a df)
  show ?case
  proof (cases "a = r")
    case True
    then show ?thesis using Cons.prems(3) by (simp add: group_key_emit demographic_emit)
  next
    case False
    then have "r \<in> set df" using Cons.prems(2) by simp
    moreover from this have "group_key a \<noteq> group_key r" using Cons.prems(1) by force
    ultimately show ?thesis using Cons by (simp add: group_key_emit)
  qed
qed

lemma load_complete:
  assumes "\<forall>r\<in>set df. complete_row r"
  shows "load_tenniscore_sales df = concat (map (\<lambda>name. map (emit name) df) demo_cols)"
proof -
  have "filter (survives name) df = df" if "name \<in> set demo_cols" for name
    using assms that
    by (intro filter_True)
      (auto simp: survives_def complete_row_def demos_present_def cell_def demo_cols_def)
  then show ?thesis by (simp add: load_rowwise demo_cols_def)
qed

lemma spread_load:
  assumes "\<forall>r\<in>set df. complete_row r" "distinct (map group_key df)" "r \<in> set df"
  shows "spread ''gen_z'' (group_key r) (load_tenniscore_sales df) = gen_z_growth_pct r"
    and "spread ''millennial'' (group_key r) (load_tenniscore_sales df) = millennial_growth_pct r"
    and "spread ''gen_x'' (group_key r) (load_tenniscore_sales df) = gen_x_growth_pct r"
    and "spread ''baby_boomer'' (group_key r) (load_tenniscore_sales df) = baby_boomer_growth_pct r"
  using assms(2,3)
  by (simp_all add: load_complete[OF assms(1)] spread_def demo_cols_def find_append_case
      find_other_block find_own_block) (simp_all add: emit_def cell_def)

lemma remdups_absorb: "set xs \<subseteq> set ys \<Longrightarrow> remdups (xs @ ys) = remdups ys"
  by (induction xs) auto

lemma remdups_tile4:
  assumes "distinct ks" shows "remdups (ks @ ks @ ks @ ks) = ks"
  using assms by (simp add: remdups_absorb distinct_remdups_id)

lemma keys_load:
  assumes "\<forall>r\<in>set df. complete_row r" "distinct (map group_key df)"
  shows "remdups (map group_key (load_tenniscore_sales df)) = map group_key df"
  using remdups_tile4[OF assms(2)]
  by (simp add: load_complete[OF assms(1)] demo_cols_def o_def group_key_emit)

lemma repivot_load:
  assumes "\<forall>r\<in>set df. complete_row r" "distinct (map group_key df)"
  shows "repivot (load_tenniscore_sales df) = df"
proof -
  have "(case group_key r of (c, i, y) \<Rightarrow>
            \<lparr>category = c, item = i, yoy_growth_pct = y,
             gen_z_growth_pct = spread ''gen_z'' (group_key r) (load_tenniscore_sales df),
             millennial_growth_pct = spread ''millennial'' (group_key r) (load_tenniscore_sales df),
             gen_x_growth_pct = spread ''gen_x'' (group_key r) (load_tenniscore_sales df),
             baby_boomer_growth_pct = spread ''baby_boomer'' (group_key r) (load_tenniscore_sales df)\<rparr>) = r"
    if "r \<in> set df" for r
    using spread_load[OF assms that] by (simp add: group_key_def)
  then show ?thesis
    unfolding repivot_def keys_load[OF assms]
    by (simp add: map_idI)
qed

text \<open>
  C5, the claim as stated, fails on two kinds of table that have no missing demographic
  value.  A row with a missing identifier cell is dropped by the reshaper, so
  \<open>sales_null_item\<close> comes back empty; and two rows that agree on (category, item,
  yoy_growth_pct) fall into one group, so \<open>sales_dup_ids\<close> comes back as one row.
\<close>

theorem round_trip_counterexample:
  "demos_present (sales_null_item ! 0)
   \<and> mset (repivot (load_tenniscore_sales sales_null_item)) \<noteq> mset sales_null_item
   \<and> demos_present (sales_dup_ids ! 0) \<and> demos_present (sales_dup_ids ! 1)
   \<and> mset (repivot (load_tenniscore_sales sales_dup_ids)) \<noteq> mset sales_dup_ids"
proof -
  have "repivot (load_tenniscore_sales sales_null_item) = []"
    by (simp add: load_rowwise sales_null_item_def demo_cols_def survives_def
        ids_present_def repivot_def)
  moreover have "length (repivot (load_tenniscore_sales sales_dup_ids)) = 1"
    by (simp add: load_rowwise sales_dup_ids_def demo_cols_def survives_def
        ids_present_def repivot_def cell_def emit_def group_key_def)
  then have "size (mset (repivot (load_tenniscore_sales sales_dup_ids))) \<noteq> size (mset sales_dup_ids)"
    by (simp add: sales_dup_ids_def)
  then have "mset (repivot (load_tenniscore_sales sales_dup_ids)) \<noteq> mset sales_dup_ids"
    by metis
  moreover have "demos_present (sales_null_item ! 0)"
    by (simp add: sales_null_item_def demos_present_def)
  moreover have "demos_present (sales_dup_ids ! 0) \<and> demos_present (sales_dup_ids ! 1)"
    by (simp add: sales_dup_ids_def demos_present_def)
  ultimately show ?thesis by (simp add: sales_null_item_def)
qed

text \<open>
  C5, amended: for every raw sales table with no missing value in any column and with
  pairwise distinct (category, item, yoy_growth_pct) triples, re-pivoting the reshaper's
  output gives back the table up to row order.
\<close>

theorem round_trip:
  "(\<forall>r\<in>set df. ids_present r \<and> demos_present r) \<and> distinct (map group_key df) \<longrightarrow>
     mset (repivot (load_tenniscore_sales df)) = mset df"
proof
  assume h: "(\<forall>r\<in>set df. ids_present r \<and> demos_present r) \<and> distinct (map group_key df)"
  then have "\<forall>r\<in>set df. complete_row r" by (simp add: complete_row_def)
  with h show "mset (repivot (load_tenniscore_sales df)) = mset df"
    by (simp add: repivot_load)
qed

theorem round_trip_witness:
  "list_all complete_row sales_two_rows
   \<and> distinct (map group_key sales_two_rows)
   \<and> mset (repivot (load_tenniscore_sales sales_two_rows)) = mset sales_two_rows"
proof -
  have h: "(\<forall>r\<in>set sales_two_rows. ids_present r \<and> demos_present r)
   \<and> distinct (map group_key sales_two_rows)"
    by (simp add: sales_two_rows_def ids_present_def demos_present_def group_key_def)
  with round_trip[of sales_two_rows] show ?thesis
    by (simp add: list_all_iff complete_row_def)
qed

section \<open>Properties of the market merger\<close>

lemma rows_of_distinct:
  "distinct (map fst t) \<Longrightarrow> rows_of y t = (case map_of t y of None \<Rightarrow> [] | Some a \<Rightarrow> [a])"
proof (induction t)
  case Nil
  then show ?case by (simp add: rows_of_def)
next
  case (Cons p t)
  obtain k a where p: "p = (k, a)" by (cases p)
  from Cons.prems p have notin: "k \<notin> fst ` set t" and d: "distinct (map fst t)" by auto
  from notin have none: "map_of t k = None" by (simp add: map_of_eq_None_iff)
  from Cons.IH[OF d] have ih: "rows_of y t = (case map_of t y of None \<Rightarrow> [] | Some a \<Rightarrow> [a])" .
  show ?case
  proof (cases "k = y")
    case True
    with none ih have "rows_of y t = []" by simp
    with True p show ?thesis by (simp add: rows_of_def)
  next
    case False
    with p ih show ?thesis by (simp add: rows_of_def)
  qed
qed

lemma outer_rows_single:
  assumes "distinct (map fst A)" "distinct (map fst B)" "y \<in> fst ` set A \<union> fst ` set B"
  shows "outer_rows y (rows_of y A) (rows_of y B) = [(y, map_of A y, map_of B y)]"
proof -
  from assms(3) have "map_of A y \<noteq> None \<or> map_of B y \<noteq> None"
    by (auto simp: map_of_eq_None_iff)
  then show ?thesis
    by (auto simp: rows_of_distinct[OF assms(1)] rows_of_distinct[OF assms(2)] outer_rows_def
        split: option.splits)
qed

lemma concat_map_single:
  "(\<And>y. y \<in> set ks \<Longrightarrow> f y = [g y]) \<Longrightarrow> concat (map f ks) = map g ks"
  by (induction ks) auto

lemma merge_distinct:
  assumes "distinct (map fst A)" "distinct (map fst B)"
  shows "load_market_data A B =
           map (\<lambda>y. (y, map_of A y, map_of B y)) (sort (remdups (map fst A @ map fst B)))"
  unfolding load_market_data_def pd_merge_outer_def
  by (rule concat_map_single) (simp add: outer_rows_single[OF assms] Un_commute)

lemma sort_remdups_commute: "sort (remdups (xs @ ys)) = sort (remdups (ys @ xs))"
proof -
  have "sorted_list_of_set (set (xs @ ys)) = sorted_list_of_set (set (ys @ xs))"
    by (simp add: Un_commute)
  then show ?thesis by (simp only: sorted_list_of_set_sort_remdups)
qed

lemma merge_commute_list:
  assumes "distinct (map fst A)" "distinct (map fst B)"
  shows "load_market_data B A = map swap_sides (load_market_data A B)"
  by (simp add: merge_distinct[OF assms] merge_distinct[OF assms(2,1)]
      sort_remdups_commute[of "map fst B"] swap_sides_def year_def left_cols_def right_cols_def)

lemma merge_example:
  "load_market_data [(2023, a1), (2024, a2), (2033, a3)] [(2024, b1), (2025, b2)]
     = [(2023, Some a1, None), (2024, Some a2, Some b1), (2025, None, Some b2),
        (2033, Some a3, None)]"
proof -
  have d: "distinct (map fst [(2023::int, a1), (2024, a2), (2033, a3)])"
          "distinct (map fst [(2024::int, b1), (2025, b2)])" by simp_all
  have k: "sort (remdups (map fst [(2023::int, a1), (2024, a2), (2033, a3)]
             @ map fst [(2024::int, b1), (2025, b2)])) = [2023, 2024, 2025, 2033]"
    by simp
  show ?thesis
    unfolding merge_distinct[OF d] k by simp
qed

lemma merged_row_cells:
  assumes "distinct (map fst A)" "distinct (map fst B)" "r \<in> set (load_market_data A B)"
  shows "left_cols r = map_of A (year r)" and "right_cols r = map_of B (year r)"
  using assms(3) unfolding merge_distinct[OF assms(1,2)]
  by (auto simp: year_def left_cols_def right_cols_def)


lemma merged_years:
  assumes "distinct (map fst A)" "distinct (map fst B)"
  shows "map year (load_market_data A B) = sort (remdups (map fst A @ map fst B))"
  unfolding merge_distinct[OF assms] by (simp add: o_def year_def)

lemma merged_row_null:
  assumes "distinct (map fst A)" "distinct (map fst B)" "r \<in> set (load_market_data A B)"
  shows "year r \<notin> fst ` set B \<longrightarrow> right_cols r = None"
    and "year r \<notin> fst ` set A \<longrightarrow> left_cols r = None"
    and "\<forall>a. (year r, a) \<in> set A \<longrightarrow> left_cols r = Some a"
    and "\<forall>b. (year r, b) \<in> set B \<longrightarrow> right_cols r = Some b"
proof -
  note c = merged_row_cells[OF assms]
  show "year r \<notin> fst ` set B \<longrightarrow> right_cols r = None"
    using map_of_eq_None_iff[of B "year r"] c(2) by simp
  show "year r \<notin> fst ` set A \<longrightarrow> left_cols r = None"
    using map_of_eq_None_iff[of A "year r"] c(1) by simp
  show "\<forall>a. (year r, a) \<in> set A \<longrightarrow> left_cols r = Some a"
    using map_of_is_SomeI[OF assms(1)] c(1) by simp
  show "\<forall>b. (year r, b) \<in> set B \<longrightarrow> right_cols r = Some b"
    using map_of_is_SomeI[OF assms(2)] c(2) by simp
qed

text \<open>
  C3: for two yearly tables without duplicate year keys, the merged table has exactly
  one row for each year in the union of the two key columns; in the row of a year that
  only one input has, the other input's columns are missing, and the columns of an
  input that has the year carry that input's row.  The tables with years 2023, 2024,
  2033 and 2024, 2025 merge into the four rows for 2023, 2024, 2025, 2033, with the
  second input's columns missing for 2023 and 2033.
\<close>

theorem market_merger_union:
  "(distinct (map fst A) \<and> distinct (map fst B) \<longrightarrow>
      years (load_market_data A B) = fst ` set A \<union> fst ` set B
    \<and> distinct (map year (load_market_data A B))
    \<and> (\<forall>r\<in>set (load_market_data A B).
          (year r \<notin> fst ` set B \<longrightarrow> right_cols r = None)
        \<and> (year r \<notin> fst ` set A \<longrightarrow> left_cols r = None)
        \<and> (\<forall>a. (year r, a) \<in> set A \<longrightarrow> left_cols r = Some a)
        \<and> (\<forall>b. (year r, b) \<in> set B \<longrightarrow> right_cols r = Some b)))
   \<and> load_market_data [(2023, a1), (2024, a2), (2033, a3)] [(2024, b1), (2025, b2)]
       = [(2023, Some a1, None), (2024, Some a2, Some b1), (2025, None, Some b2),
          (2033, Some a3, None)]"
proof (rule conjI)
  show "distinct (map fst A) \<and> distinct (map fst B) \<longrightarrow>
      years (load_market_data A B) = fst ` set A \<union> fst ` set B
    \<and> distinct (map year (load_market_data A B))
    \<and> (\<forall>r\<in>set (load_market_data A B).
          (year r \<notin> fst ` set B \<longrightarrow> right_cols r = None)
        \<and> (year r \<notin> fst ` set A \<longrightarrow> left_cols r = None)
        \<and> (\<forall>a. (year r, a) \<in> set A \<longrightarrow> left_cols r = Some a)
        \<and> (\<forall>b. (year r, b) \<in> set B \<longrightarrow> right_cols r = Some b))"
  proof
    assume h: "distinct (map fst A) \<and> distinct (map fst B)"
    then have dA: "distinct (map fst A)" and dB: "distinct (map fst B)" by simp_all
    note ym = merged_years[OF dA dB]
    have 1: "years (load_market_data A B) = fst ` set A \<union> fst ` set B"
      unfolding years_def ym by simp
    have 2: "distinct (map year (load_market_data A B))"
      unfolding ym by simp
    have 3: "\<forall>r\<in>set (load_market_data A B).
          (year r \<notin> fst ` set B \<longrightarrow> right_cols r = None)
        \<and> (year r \<notin> fst ` set A \<longrightarrow> left_cols r = None)
        \<and> (\<forall>a. (year r, a) \<in> set A \<longrightarrow> left_cols r = Some a)
        \<and> (\<forall>b. (year r, b) \<in> set B \<longrightarrow> right_cols r = Some b)"
    proof
      fix r assume r: "r \<in> set (load_market_data A B)"
      show "(year r \<notin> fst ` set B \<longrightarrow> right_cols r = None)
        \<and> (year r \<notin> fst ` set A \<longrightarrow> left_cols r = None)
        \<and> (\<forall>a. (year r, a) \<in> set A \<longrightarrow> left_cols r = Some a)
        \<and> (\<forall>b. (year r, b) \<in> set B \<longrightarrow> right_cols r = Some b)"
        by (intro conjI merged_row_null[OF dA dB r])
    qed
    from 1 2 3 show "years (load_market_data A B) = fst ` set A \<union> fst ` set B
    \<and> distinct (map year (load_market_data A B))
    \<and> (\<forall>r\<in>set (load_market_data A B).
          (year r \<notin> fst ` set B \<longrightarrow> right_cols r = None)
        \<and> (year r \<notin> fst ` set A \<longrightarrow> left_cols r = None)
        \<and> (\<forall>a. (year r, a) \<in> set A \<longrightarrow> left_cols r = Some a)
        \<and> (\<forall>b. (year r, b) \<in> set B \<longrightarrow> right_cols r = Some b))"
      by (intro conjI)
  qed
next
  show "load_market_data [(2023, a1), (2024, a2), (2033, a3)] [(2024, b1), (2025, b2)]
       = [(2023, Some a1, None), (2024, Some a2, Some b1), (2025, None, Some b2),
          (2033, Some a3, None)]"
    by (rule merge_example)
qed

text \<open>
  C6: for two yearly tables without duplicate year keys, merging them in the other
  argument order gives the same rows with the same cells, the two column groups
  exchanged.
\<close>

theorem market_merger_commutes:
  "distinct (map fst A) \<and> distinct (map fst B) \<longrightarrow>
     mset (load_market_data B A) = image_mset swap_sides (mset (load_market_data A B))
   \<and> set (load_market_data B A) = swap_sides ` set (load_market_data A B)"
proof
  assume "distinct (map fst A) \<and> distinct (map fst B)"
  then have e: "load_market_data B A = map swap_sides (load_market_data A B)"
    by (intro merge_commute_list) simp_all
  show "mset (load_market_data B A) = image_mset swap_sides (mset (load_market_data A B))
   \<and> set (load_market_data B A) = swap_sides ` set (load_market_data A B)"
    unfolding e by simp
qed



lemma example_merge:
  "load_market_data sportswear_years jersey_years
       = [(2023, Some 1, None), (2024, Some 2, Some 4), (2025, None, Some 5), (2033, Some 3, None)]"
  unfolding sportswear_years_def jersey_years_def by (rule merge_example)

theorem market_merger_union_witness:
  "distinct (map fst sportswear_years) \<and> distinct (map fst jersey_years)
   \<and> years (load_market_data sportswear_years jersey_years) = {2023, 2024, 2025, 2033}
   \<and> length (load_market_data sportswear_years jersey_years) = 4
   \<and> distinct (map year (load_market_data sportswear_years jersey_years))"
proof -
  have d: "distinct (map fst sportswear_years) \<and> distinct (map fst jersey_years)"
    by (simp add: sportswear_years_def jersey_years_def)
  have u: "fst ` set sportswear_years \<union> fst ` set jersey_years = {2023, 2024, 2025, 2033}"
    by (auto simp: sportswear_years_def jersey_years_def)
  have l: "length (load_market_data sportswear_years jersey_years) = 4"
    unfolding example_merge by simp
  from market_merger_union[of sportswear_years jersey_years, THEN conjunct1] d u l
  show ?thesis by simp
qed

theorem market_merger_commutes_witness:
  "distinct (map fst sportswear_years) \<and> distinct (map fst jersey_years)
   \<and> set (load_market_data jersey_years sportswear_years)
       = {(2023, None, Some 1), (2024, Some 4, Some 2), (2025, Some 5, None), (2033, None, Some 3)}"
proof -
  have d: "distinct (map fst sportswear_years) \<and> distinct (map fst jersey_years)"
    by (simp add: sportswear_years_def jersey_years_def)
  from market_merger_commutes[of sportswear_years jersey_years] d
  have "set (load_market_data jersey_years sportswear_years)
          = swap_sides ` set (load_market_data sportswear_years jersey_years)"
    by simp
  then have "set (load_market_data jersey_years sportswear_years)
       = {(2023, None, Some 1), (2024, Some 4, Some 2), (2025, Some 5, None), (2033, None, Some 3)}"
    unfolding example_merge by (simp add: swap_sides_def year_def left_cols_def right_cols_def)
  with d show ?thesis by simp
qed

section \<open>Properties of the synthetic generator\<close>

lemma Timestamp_values:
  "Timestamp 2023 1 1 = 738521" "Timestamp 2024 4 1 = 738977" "Timestamp 2024 4 26 = 739002"
  "Timestamp 2024 8 1 = 739099" "Timestamp 2026 1 1 = 739617" "Timestamp 2026 2 1 = 739648"
  "Timestamp 2026 6 11 = 739778"
  by (simp_all add: Timestamp_def days_before_year_def days_before_month_def is_leap_def)

lemma ieee_exact_ops: "ieee_like exact_ops"
  by (simp add: ieee_like_def exact_ops_def)

lemma rnd_int:
  assumes "ieee_like F" "\<bar>n\<bar> \<le> 2 ^ 53"
  shows "rnd F (of_int n) = of_int n"
  using assms by (simp add: ieee_like_def)

lemma rnd_small:
  assumes "ieee_like F"
  shows "rnd F 0 = 0" "rnd F 1 = 1" "rnd F 20 = 20" "rnd F 30 = 30" "rnd F 40 = 40"
    "rnd F 60 = 60" "rnd F 80 = 80"
  using rnd_int[OF assms, of 0] rnd_int[OF assms, of 1] rnd_int[OF assms, of 20]
    rnd_int[OF assms, of 30] rnd_int[OF assms, of 40] rnd_int[OF assms, of 60]
    rnd_int[OF assms, of 80]
  by simp_all

lemma rnd_mono:
  assumes "ieee_like F" "x \<le> y"
  shows "rnd F x \<le> rnd F y"
  using assms by (simp add: ieee_like_def)

lemma py_int_trunc: "\<bar>of_int (py_int x)\<bar> \<le> \<bar>x\<bar> \<and> \<bar>x - of_int (py_int x)\<bar> < 1"
  unfolding py_int_def by (cases "0 \<le> x") (simp_all, linarith+)

lemma py_int_ge:
  assumes "of_int n \<le> x" "0 \<le> n"
  shows "n \<le> py_int x"
proof -
  from assms have "0 \<le> x" by (smt (verit) of_int_0_le_iff)
  with assms show ?thesis by (simp add: py_int_def le_floor_iff)
qed

lemma tenniscore_center:
  assumes "ieee_like F"
  shows "tenniscore_val F (Timestamp 2024 4 26) = 80"
proof -
  have p: "pow2 F 0 = 0" using assms by (simp add: ieee_like_def)
  show ?thesis
    by (simp add: tenniscore_val_def tenniscore_boost_def Timestamp_values fadd_def fmul_def
        fsub_def fdiv_def rnd_small[OF assms] p)
qed

lemma tenniscore_tail:
  assumes "120 < \<bar>d - Timestamp 2024 4 26\<bar>"
  shows "tenniscore_val F d = 20"
  using assms by (auto simp: tenniscore_val_def Timestamp_values)

lemma tenniscore_val_ge: "20 \<le> tenniscore_val F d"
  by (simp add: tenniscore_val_def)

lemma soccer_val_ge:
  assumes "ieee_like F"
  shows "30 \<le> soccer_val F d"
proof (cases "Timestamp 2026 6 11 - d < 365")
  case False
  then show ?thesis by (simp add: soccer_val_def Let_def)
next
  case True
  define n where "n = Timestamp 2026 6 11 - d"
  have "real_of_int n / 365 \<le> 1" using True by (simp add: n_def)
  then have "rnd F (real_of_int n / 365) \<le> 1"
    using rnd_mono[OF assms, of "real_of_int n / 365" 1] rnd_small[OF assms] by simp
  then have "0 \<le> 1 - rnd F (real_of_int n / 365)" by simp
  then have a: "0 \<le> rnd F (1 - rnd F (real_of_int n / 365))"
    using rnd_mono[OF assms, of 0] rnd_small[OF assms] by fastforce
  then have "0 \<le> 50 * rnd F (1 - rnd F (real_of_int n / 365))" by simp
  then have "0 \<le> rnd F (50 * rnd F (1 - rnd F (real_of_int n / 365)))"
    using rnd_mono[OF assms, of 0] rnd_small[OF assms] by fastforce
  then have "30 \<le> 30 + rnd F (50 * rnd F (1 - rnd F (real_of_int n / 365)))" by simp
  then have "30 \<le> rnd F (30 + rnd F (50 * rnd F (1 - rnd F (real_of_int n / 365))))"
    using rnd_mono[OF assms, of 30] rnd_small[OF assms] by fastforce
  then show ?thesis
    using True by (simp add: soccer_val_def Let_def fadd_def fmul_def fsub_def fdiv_def n_def)
qed

lemma womens_val_ge:
  assumes "ieee_like F" "Timestamp 2023 1 1 \<le> d"
  shows "40 \<le> womens_val F d"
proof -
  define n where "n = d - Timestamp 2023 1 1"
  have "0 \<le> real_of_int n / 30" using assms(2) by (simp add: n_def)
  then have "0 \<le> rnd F (real_of_int n / 30)"
    using rnd_mono[OF assms(1), of 0] rnd_small[OF assms(1)] by fastforce
  then have "40 \<le> 40 + rnd F (real_of_int n / 30)" by simp
  then have "40 \<le> rnd F (40 + rnd F (real_of_int n / 30))"
    using rnd_mono[OF assms(1), of 40] rnd_small[OF assms(1)] by fastforce
  then show ?thesis
    by (simp add: womens_val_def Let_def fadd_def fdiv_def n_def)
qed

lemma sample_dates_iff:
  "d \<in> set sample_dates \<longleftrightarrow> Timestamp 2023 1 1 \<le> d \<and> d \<le> Timestamp 2026 2 1 \<and> weekday d = 6"
  by (auto simp: sample_dates_def date_range_W_def)

lemma tenniscore_row:
  "tenniscore (sample_row F d) = py_int (tenniscore_val F d)"
  by (simp add: sample_row_def)

lemma center_not_generated: "Timestamp 2024 4 26 \<notin> set sample_dates"
  by (simp add: sample_dates_iff Timestamp_values weekday_def)

text \<open>
  C8: the row computed for the centre date 2024-04-26 has tenniscore = baseline + 60 = 80,
  and the row computed for any date more than 120 days before or after the centre has
  tenniscore = 20; both hold for the loop body at every date, hence for every generated
  row.  (The centre date is a Friday and the grid holds Sundays only, so the generated
  table itself has no row dated at the centre.)
\<close>

theorem tenniscore_center_and_tails:
  "ieee_like F \<longrightarrow>
     tenniscore (sample_row F (Timestamp 2024 4 26)) = 20 + 60
   \<and> (\<forall>d. 120 < \<bar>d - Timestamp 2024 4 26\<bar> \<longrightarrow> tenniscore (sample_row F d) = 20)
   \<and> (\<forall>r\<in>set (generate_sample_data F).
         (date r = Timestamp 2024 4 26 \<longrightarrow> tenniscore r = 80)
       \<and> (120 < \<bar>date r - Timestamp 2024 4 26\<bar> \<longrightarrow> tenniscore r = 20))"
proof
  assume F: "ieee_like F"
  have c: "tenniscore (sample_row F (Timestamp 2024 4 26)) = 80"
    by (simp add: tenniscore_row tenniscore_center[OF F] py_int_def)
  have t: "tenniscore (sample_row F d) = 20" if "120 < \<bar>d - Timestamp 2024 4 26\<bar>" for d
    by (simp add: tenniscore_row tenniscore_tail[OF that] py_int_def)
  have g: "(date r = Timestamp 2024 4 26 \<longrightarrow> tenniscore r = 80)
       \<and> (120 < \<bar>date r - Timestamp 2024 4 26\<bar> \<longrightarrow> tenniscore r = 20)"
    if "r \<in> set (generate_sample_data F)" for r
  proof -
    from that obtain d where r: "r = sample_row F d" by (auto simp: generate_sample_data_def)
    have d: "date (sample_row F d) = d" by (simp add: sample_row_def)
    show ?thesis using c t[of d] unfolding r d by auto
  qed
  from c t g show "tenniscore (sample_row F (Timestamp 2024 4 26)) = 20 + 60
   \<and> (\<forall>d. 120 < \<bar>d - Timestamp 2024 4 26\<bar> \<longrightarrow> tenniscore (sample_row F d) = 20)
   \<and> (\<forall>r\<in>set (generate_sample_data F).
         (date r = Timestamp 2024 4 26 \<longrightarrow> tenniscore r = 80)
       \<and> (120 < \<bar>date r - Timestamp 2024 4 26\<bar> \<longrightarrow> tenniscore r = 20))"
    by simp
qed

theorem tenniscore_center_and_tails_witness:
  "ieee_like exact_ops
   \<and> tenniscore (sample_row exact_ops (Timestamp 2024 4 26)) = 80
   \<and> sample_row exact_ops (Timestamp 2023 1 1) \<in> set (generate_sample_data exact_ops)
   \<and> 120 < \<bar>Timestamp 2023 1 1 - Timestamp 2024 4 26\<bar>
   \<and> tenniscore (sample_row exact_ops (Timestamp 2023 1 1)) = 20"
proof -
  have m: "sample_row exact_ops (Timestamp 2023 1 1) \<in> set (generate_sample_data exact_ops)"
    by (simp add: generate_sample_data_def sample_dates_iff Timestamp_values weekday_def)
  have f: "120 < \<bar>Timestamp 2023 1 1 - Timestamp 2024 4 26\<bar>"
    by (simp add: Timestamp_values)
  from tenniscore_center_and_tails[of exact_ops] ieee_exact_ops m f show ?thesis
    by simp
qed

text \<open>
  C10: every generated row holds in its five numeric columns the truncation toward zero
  of the corresponding double value, and its primary series stay at or above their
  baselines: tenniscore at least 20, soccer_jersey at least 30, womens_activewear at
  least 40.
\<close>

theorem generated_rows_bounds:
  "ieee_like F \<longrightarrow>
     (\<forall>r\<in>set (generate_sample_data F).
        20 \<le> tenniscore r \<and> 30 \<le> soccer_jersey r \<and> 40 \<le> womens_activewear r
      \<and> tenniscore r = py_int (tenniscore_val F (date r))
      \<and> tennis_skirt r = py_int (fmul F (tenniscore_val F (date r)) (rnd F (8 / 10)))
      \<and> soccer_jersey r = py_int (soccer_val F (date r))
      \<and> football_kit r = py_int (fmul F (soccer_val F (date r)) (rnd F (7 / 10)))
      \<and> womens_activewear r = py_int (womens_val F (date r)))
   \<and> (\<forall>x. \<bar>of_int (py_int x)\<bar> \<le> \<bar>x\<bar> \<and> \<bar>x - of_int (py_int x)\<bar> < 1)"
proof
  assume F: "ieee_like F"
  have "20 \<le> tenniscore r \<and> 30 \<le> soccer_jersey r \<and> 40 \<le> womens_activewear r
      \<and> tenniscore r = py_int (tenniscore_val F (date r))
      \<and> tennis_skirt r = py_int (fmul F (tenniscore_val F (date r)) (rnd F (8 / 10)))
      \<and> soccer_jersey r = py_int (soccer_val F (date r))
      \<and> football_kit r = py_int (fmul F (soccer_val F (date r)) (rnd F (7 / 10)))
      \<and> womens_activewear r = py_int (womens_val F (date r))"
    if "r \<in> set (generate_sample_data F)" for r
  proof -
    from that obtain d where r: "r = sample_row F d" and d: "d \<in> set sample_dates"
      by (auto simp: generate_sample_data_def)
    from d have s: "Timestamp 2023 1 1 \<le> d" by (simp add: sample_dates_iff)
    have 1: "20 \<le> py_int (tenniscore_val F d)"
      using tenniscore_val_ge[of F d] by (intro py_int_ge) simp_all
    have 2: "30 \<le> py_int (soccer_val F d)"
      using soccer_val_ge[OF F, of d] by (intro py_int_ge) simp_all
    have 3: "40 \<le> py_int (womens_val F d)"
      using womens_val_ge[OF F s] by (intro py_int_ge) simp_all
    from 1 2 3 show ?thesis unfolding r by (simp add: sample_row_def)
  qed
  then show "(\<forall>r\<in>set (generate_sample_data F).
        20 \<le> tenniscore r \<and> 30 \<le> soccer_jersey r \<and> 40 \<le> womens_activewear r
      \<and> tenniscore r = py_int (tenniscore_val F (date r))
      \<and> tennis_skirt r = py_int (fmul F (tenniscore_val F (date r)) (rnd F (8 / 10)))
      \<and> soccer_jersey r = py_int (soccer_val F (date r))
      \<and> football_kit r = py_int (fmul F (soccer_val F (date r)) (rnd F (7 / 10)))
      \<and> womens_activewear r = py_int (womens_val F (date r)))
   \<and> (\<forall>x. \<bar>of_int (py_int x)\<bar> \<le> \<bar>x\<bar> \<and> \<bar>x - of_int (py_int x)\<bar> < 1)"
    using py_int_trunc by blast
qed

theorem generated_rows_bounds_witness:
  "ieee_like exact_ops
   \<and> sample_row exact_ops (Timestamp 2026 2 1) \<in> set (generate_sample_data exact_ops)
   \<and> 20 \<le> tenniscore (sample_row exact_ops (Timestamp 2026 2 1))
   \<and> 30 \<le> soccer_jersey (sample_row exact_ops (Timestamp 2026 2 1))
   \<and> 40 \<le> womens_activewear (sample_row exact_ops (Timestamp 2026 2 1))"
proof -
  have m: "sample_row exact_ops (Timestamp 2026 2 1) \<in> set (generate_sample_data exact_ops)"
    by (simp add: generate_sample_data_def sample_dates_iff Timestamp_values weekday_def)
  from generated_rows_bounds[of exact_ops] ieee_exact_ops m show ?thesis
    by blast
qed

section \<open>Properties of the summary derivation\<close>

lemma iloc0_filter:
  "iloc0 (filter P xs) = (case find P xs of None \<Rightarrow> Inl IndexError | Some x \<Rightarrow> Inr x)"
  by (induction xs) (simp_all add: iloc0_def)

lemma iloc0_year_rows:
  "iloc0 (year_rows y market) =
     (case row_of_year y market of None \<Rightarrow> Inl IndexError | Some r \<Rightarrow> Inr r)"
  by (simp add: year_rows_def row_of_year_def iloc0_filter)

lemma row_of_year_None: "row_of_year y market = None \<longleftrightarrow> y \<notin> years market"
  by (auto simp: row_of_year_def years_def find_None_iff)

lemma nlargest_Nil: "nlargest 5 df = [] \<longleftrightarrow> df = []"
proof -
  have "length (sort_key yoy_desc_key (filter (\<lambda>m. yoy_growth_pct m \<noteq> None) df)
             @ filter (\<lambda>m. yoy_growth_pct m = None) df) = length df"
    using sum_length_filter_compl[of "\<lambda>m. yoy_growth_pct m \<noteq> None" df] by simp
  then have "(sort_key yoy_desc_key (filter (\<lambda>m. yoy_growth_pct m \<noteq> None) df)
             @ filter (\<lambda>m. yoy_growth_pct m = None) df = []) \<longleftrightarrow> df = []"
    by (metis length_0_conv)
  then show ?thesis
    unfolding nlargest_def take_eq_Nil by simp
qed

lemma load_Nil: "load_tenniscore_sales [] = []"
  by (simp add: load_rowwise demo_cols_def)

lemma summary_header_only:
  assumes "tenniscore_sales_csv raw = Some []"
  shows "create_summary_stats F raw = Inl TypeError"
  using assms
  by (simp add: create_summary_stats_def load_tenniscore_sales_from_def read_csv_def
      nlargest_checked_def sales_yoy_numeric_def yoy_is_numeric_def)

lemma summary_present:
  assumes "files_present raw sales sportswear jersey trends" "sales \<noteq> []"
  shows "create_summary_stats F raw =
     (case row_of_year 2024 (load_market_data sportswear jersey) of
        None \<Rightarrow> Inl IndexError
      | Some latest_market \<Rightarrow>
     (case row_of_year 2033 (load_market_data sportswear jersey) of
        None \<Rightarrow> Inl IndexError
      | Some projected_2033 \<Rightarrow>
     (case nlargest 5 (load_tenniscore_sales sales) of
        [] \<Rightarrow> Inl IndexError
      | t # _ \<Rightarrow>
          Inr \<lparr>tenniscore_peak_growth = yoy_growth_pct t,
               market_2024_billion = market_value latest_market,
               market_2033_billion = market_value projected_2033,
               market_growth_rate = 7,
               tenniscore_search_peak = series_max (map tenniscore trends),
               soccer_jersey_trend_current =
                 series_mean F (map soccer_jersey (current_rows trends)),
               challengers_media_value_million = 85 / 2\<rparr>)))"
proof -
  have 0: "nlargest_checked (sales_yoy_numeric raw) 5 df = Inr (nlargest 5 df)" for df
    using assms
    by (simp add: files_present_def nlargest_checked_def sales_yoy_numeric_def
        yoy_is_numeric_def)
  have 1: "load_tenniscore_sales_from raw = Inr (load_tenniscore_sales sales)"
    using assms by (simp add: files_present_def load_tenniscore_sales_from_def read_csv_def)
  have 2: "load_market_data_from raw = Inr (load_market_data sportswear jersey)"
    using assms by (simp add: files_present_def load_market_data_from_def read_csv_def)
  have 3: "load_trends_data raw = Inr trends"
    using assms by (simp add: files_present_def load_trends_data_def read_csv_def)
  have 4: "iloc0 (map f xs) = (case xs of [] \<Rightarrow> Inl IndexError | x # _ \<Rightarrow> Inr (f x))" for f :: "long_row \<Rightarrow> string option \<times> real option" and xs
    by (cases xs) (simp_all add: iloc0_def)
  show ?thesis
    unfolding create_summary_stats_def 0 1 2 3 iloc0_year_rows Let_def 4
    by (simp split: option.splits list.splits)
qed

lemma summary_fails_without_year:
  assumes "files_present raw sales sportswear jersey trends" "sales \<noteq> []"
    "2024 \<notin> years (load_market_data sportswear jersey)
       \<or> 2033 \<notin> years (load_market_data sportswear jersey)"
  shows "create_summary_stats F raw = Inl IndexError"
  using assms(3) unfolding summary_present[OF assms(1,2)]
  by (auto simp: row_of_year_None[symmetric] split: option.splits)

lemma summary_fails_without_sales:
  assumes "files_present raw sales sportswear jersey trends" "sales \<noteq> []"
    "load_tenniscore_sales sales = []"
  shows "create_summary_stats F raw = Inl IndexError"
  unfolding summary_present[OF assms(1,2)] using assms(3)
  by (simp add: nlargest_def split: option.splits)

lemma summary_succeeds:
  assumes "files_present raw sales sportswear jersey trends"
    "2024 \<in> years (load_market_data sportswear jersey)"
    "2033 \<in> years (load_market_data sportswear jersey)"
    "load_tenniscore_sales sales \<noteq> []"
  shows "\<exists>s. create_summary_stats F raw = Inr s
     \<and> map_option market_value (row_of_year 2024 (load_market_data sportswear jersey))
         = Some (market_2024_billion s)
     \<and> map_option market_value (row_of_year 2033 (load_market_data sportswear jersey))
         = Some (market_2033_billion s)
     \<and> soccer_jersey_trend_current s = series_mean F (map soccer_jersey (current_rows trends))"
proof -
  from assms(4) have ne: "sales \<noteq> []" using load_Nil by auto
  from assms(2) obtain r24 where a: "row_of_year 2024 (load_market_data sportswear jersey) = Some r24"
    using row_of_year_None[of 2024 "load_market_data sportswear jersey"] by auto
  from assms(3) obtain r33 where b: "row_of_year 2033 (load_market_data sportswear jersey) = Some r33"
    using row_of_year_None[of 2033 "load_market_data sportswear jersey"] by auto
  from assms(4) obtain t ts where c: "nlargest 5 (load_tenniscore_sales sales) = t # ts"
    using nlargest_Nil[of "load_tenniscore_sales sales"] by (cases "nlargest 5 (load_tenniscore_sales sales)") auto
  show ?thesis
    unfolding summary_present[OF assms(1) ne] a b c by simp
qed

lemma example_market:
  "load_market_data sportswear_table jersey_table =
     [(2023, Some (snd (sportswear_table ! 0)), None),
      (2024, Some (snd (sportswear_table ! 1)), Some (snd (jersey_table ! 0))),
      (2025, None, Some (snd (jersey_table ! 1))),
      (2033, Some (snd (sportswear_table ! 2)), None)]"
  unfolding sportswear_table_def jersey_table_def
  by (simp add: merge_example)

lemma example_years:
  "2024 \<in> years (load_market_data sportswear_table jersey_table)"
  "2033 \<in> years (load_market_data sportswear_table jersey_table)"
  unfolding example_market by (simp_all add: years_def year_def)

lemma example_rows:
  "map_option market_value (row_of_year 2024 (load_market_data sportswear_table jersey_table)) = Some (Some 99)"
  "map_option market_value (row_of_year 2033 (load_market_data sportswear_table jersey_table)) = Some (Some 250)"
  unfolding example_market
  by (simp_all add: row_of_year_def year_def market_value_def left_cols_def sportswear_table_def)

lemma load_null_item: "load_tenniscore_sales sales_null_item = []"
  by (simp add: load_rowwise sales_null_item_def demo_cols_def survives_def ids_present_def)

lemma load_two_rows_nonempty: "load_tenniscore_sales sales_two_rows \<noteq> []"
  by (simp add: load_rowwise sales_two_rows_def demo_cols_def survives_def ids_present_def cell_def)

lemma sales_examples_nonempty: "sales_null_item \<noteq> []" "sales_two_rows \<noteq> []"
  by (simp_all add: sales_null_item_def sales_two_rows_def)

lemma present_examples:
  "files_present raw_ok sales_two_rows sportswear_table jersey_table trends_table"
  "files_present raw_sales_dropped sales_null_item sportswear_table jersey_table trends_table"
  "files_present raw_no_current sales_two_rows sportswear_table jersey_table trends_old"
  "files_present raw_no_2033 sales_two_rows sportswear_until_2024 jersey_table trends_table"
  by (simp_all add: files_present_def raw_ok_def raw_sales_dropped_def raw_no_current_def
      raw_no_2033_def)

lemma example_no_2033:
  "years (load_market_data sportswear_until_2024 jersey_table) = {2023, 2024, 2025}"
proof -
  have d: "distinct (map fst sportswear_until_2024)" "distinct (map fst jersey_table)"
    by (simp_all add: sportswear_until_2024_def jersey_table_def)
  show ?thesis
    unfolding years_def merged_years[OF d]
    by (auto simp: sportswear_until_2024_def jersey_table_def)
qed

text \<open>
  A sales file that holds only its header ends the derivation with TypeError at
  \<open>nlargest\<close>, before any market lookup, whatever the market table holds.
\<close>

lemma header_only_sales_example:
  "create_summary_stats exact_ops raw_header_only_sales = Inl TypeError"
  by (rule summary_header_only) (simp add: raw_header_only_sales_def)

text \<open>
  C4, the claim as stated, fails in its second half: a market table with rows for both
  2024 and 2033 does not make the derivation succeed.  The summary also takes the first
  of the top sales rows, and when the reshaper has dropped every row (here the only
  input row has a missing \<open>item\<close>) that lookup raises IndexError.
\<close>

theorem summary_market_lookup_counterexample:
  "2024 \<in> years (load_market_data sportswear_table jersey_table)
   \<and> 2033 \<in> years (load_market_data sportswear_table jersey_table)
   \<and> load_market_data_from raw_sales_dropped
       = Inr (load_market_data sportswear_table jersey_table)
   \<and> create_summary_stats exact_ops raw_sales_dropped = Inl IndexError"
proof -
  have "load_market_data_from raw_sales_dropped
       = Inr (load_market_data sportswear_table jersey_table)"
    by (simp add: load_market_data_from_def read_csv_def raw_sales_dropped_def raw_ok_def)
  then show ?thesis
    using example_years summary_fails_without_sales[OF present_examples(2) sales_examples_nonempty(1) load_null_item]
    by simp
qed

text \<open>
  C4, amended: given readable sales, market and trends files and a sales file with at
  least one data row, the summary derivation fails with IndexError (the specification's
  RowNotFound) whenever the market table lacks a row for 2024 or for 2033; when it has
  both and the reshaped sales table has at least one row, the derivation succeeds, with
  market_2024_billion and market_2033_billion equal to the market_value_billion_usd
  field of the first market row of year 2024 and 2033.
\<close>

theorem summary_market_lookup:
  "files_present raw sales sportswear jersey trends \<longrightarrow>
     (sales \<noteq> []
        \<and> (2024 \<notin> years (load_market_data sportswear jersey)
             \<or> 2033 \<notin> years (load_market_data sportswear jersey)) \<longrightarrow>
      create_summary_stats F raw = Inl IndexError)
   \<and> (2024 \<in> years (load_market_data sportswear jersey)
        \<and> 2033 \<in> years (load_market_data sportswear jersey)
        \<and> load_tenniscore_sales sales \<noteq> [] \<longrightarrow>
      (\<exists>s. create_summary_stats F raw = Inr s
         \<and> map_option market_value (row_of_year 2024 (load_market_data sportswear jersey))
             = Some (market_2024_billion s)
         \<and> map_option market_value (row_of_year 2033 (load_market_data sportswear jersey))
             = Some (market_2033_billion s)))"
proof (intro impI conjI)
  assume p: "files_present raw sales sportswear jersey trends"
  show "create_summary_stats F raw = Inl IndexError"
    if "sales \<noteq> []
        \<and> (2024 \<notin> years (load_market_data sportswear jersey)
             \<or> 2033 \<notin> years (load_market_data sportswear jersey))"
    using summary_fails_without_year[OF p, of F] that by blast
  show "\<exists>s. create_summary_stats F raw = Inr s
         \<and> map_option market_value (row_of_year 2024 (load_market_data sportswear jersey))
             = Some (market_2024_billion s)
         \<and> map_option market_value (row_of_year 2033 (load_market_data sportswear jersey))
             = Some (market_2033_billion s)"
    if "2024 \<in> years (load_market_data sportswear jersey)
        \<and> 2033 \<in> years (load_market_data sportswear jersey)
        \<and> load_tenniscore_sales sales \<noteq> []"
    using summary_succeeds[OF p, of F] that by blast
qed

theorem summary_market_lookup_witness:
  "(\<exists>s. create_summary_stats exact_ops raw_ok = Inr s
        \<and> market_2024_billion s = Some 99 \<and> market_2033_billion s = Some 250)
   \<and> years (load_market_data sportswear_until_2024 jersey_table) = {2023, 2024, 2025}
   \<and> create_summary_stats exact_ops raw_no_2033 = Inl IndexError"
proof -
  note t1 = summary_market_lookup[of raw_ok sales_two_rows sportswear_table jersey_table
      trends_table exact_ops]
  from t1 present_examples(1) example_years load_two_rows_nonempty
  obtain s where s: "create_summary_stats exact_ops raw_ok = Inr s"
    "map_option market_value (row_of_year 2024 (load_market_data sportswear_table jersey_table))
             = Some (market_2024_billion s)"
    "map_option market_value (row_of_year 2033 (load_market_data sportswear_table jersey_table))
             = Some (market_2033_billion s)"
    by blast
  from s(2,3) have v: "market_2024_billion s = Some 99 \<and> market_2033_billion s = Some 250"
    unfolding example_rows by simp
  note t2 = summary_market_lookup[of raw_no_2033 sales_two_rows sportswear_until_2024
      jersey_table trends_table exact_ops]
  from t2 present_examples(4) sales_examples_nonempty(2)
  have "create_summary_stats exact_ops raw_no_2033 = Inl IndexError"
    unfolding example_no_2033 by simp
  with s(1) v example_no_2033 show ?thesis by blast
qed

lemma series_mean_formula:
  "series_mean F (map soccer_jersey rows) =
     (if rows = [] then None
      else Some (rnd F (of_int (sum_list (map soccer_jersey rows)) / of_nat (length rows))))"
  by (simp add: series_mean_def fdiv_def)

text \<open>
  C9: soccer_jersey_trend_current is the mean of the soccer_jersey column over exactly
  the trends rows dated on or after 2026-01-01, computed in double precision as the
  sum divided by the count; when no row is that recent the value is NaN (\<open>None\<close>)
  and the derivation succeeds all the same.
\<close>

theorem soccer_trend_current:
  "(files_present raw sales sportswear jersey trends
      \<and> 2024 \<in> years (load_market_data sportswear jersey)
      \<and> 2033 \<in> years (load_market_data sportswear jersey)
      \<and> load_tenniscore_sales sales \<noteq> [] \<longrightarrow>
      (\<exists>s. create_summary_stats F raw = Inr s
         \<and> soccer_jersey_trend_current s =
             (if current_rows trends = [] then None
              else Some (rnd F (of_int (sum_list (map soccer_jersey (current_rows trends)))
                                  / of_nat (length (current_rows trends)))))))
   \<and> current_rows trends = filter (\<lambda>r. Timestamp 2026 1 1 \<le> date r) trends"
proof (intro conjI impI)
  assume h: "files_present raw sales sportswear jersey trends
      \<and> 2024 \<in> years (load_market_data sportswear jersey)
      \<and> 2033 \<in> years (load_market_data sportswear jersey)
      \<and> load_tenniscore_sales sales \<noteq> []"
  then obtain s where "create_summary_stats F raw = Inr s"
    "soccer_jersey_trend_current s = series_mean F (map soccer_jersey (current_rows trends))"
    using summary_succeeds[of raw sales sportswear jersey trends F] by blast
  then show "\<exists>s. create_summary_stats F raw = Inr s
         \<and> soccer_jersey_trend_current s =
             (if current_rows trends = [] then None
              else Some (rnd F (of_int (sum_list (map soccer_jersey (current_rows trends)))
                                  / of_nat (length (current_rows trends)))))"
    unfolding series_mean_formula by blast
next
  show "current_rows trends = filter (\<lambda>r. Timestamp 2026 1 1 \<le> date r) trends"
    by (simp add: current_rows_def)
qed

theorem soccer_trend_current_witness:
  "(\<exists>s. create_summary_stats exact_ops raw_ok = Inr s
        \<and> soccer_jersey_trend_current s = Some (85 / 2))
   \<and> current_rows trends_old = []
   \<and> (\<exists>s. create_summary_stats exact_ops raw_no_current = Inr s
        \<and> soccer_jersey_trend_current s = None)"
proof -
  have c1: "map soccer_jersey (current_rows trends_table) = [40, 45]"
    by (simp add: current_rows_def trends_table_def Timestamp_values)
  then have l1: "length (current_rows trends_table) = 2" and n1: "current_rows trends_table \<noteq> []"
    by (auto dest: arg_cong[where f = length])
  have c2: "current_rows trends_old = []"
    by (simp add: current_rows_def trends_old_def Timestamp_values)
  from soccer_trend_current[of raw_ok sales_two_rows sportswear_table jersey_table trends_table
      exact_ops] present_examples(1) example_years load_two_rows_nonempty
  have "\<exists>s. create_summary_stats exact_ops raw_ok = Inr s
        \<and> soccer_jersey_trend_current s = Some (85 / 2)"
    unfolding c1 l1 using n1 by (simp add: exact_ops_def)
  moreover
  from soccer_trend_current[of raw_no_current sales_two_rows sportswear_table jersey_table
      trends_old exact_ops] present_examples(3) example_years load_two_rows_nonempty
  have "\<exists>s. create_summary_stats exact_ops raw_no_current = Inr s
        \<and> soccer_jersey_trend_current s = None"
    unfolding c2 by simp
  ultimately show ?thesis using c2 by blast
qed

section \<open>Properties of the full run\<close>

lemma no_sales_file_run:
  "process_all F raw_no_sales_file out0 = (out0, Inl FileNotFoundError)"
  by (simp add: process_all_def load_tenniscore_sales_from_def read_csv_def
      raw_no_sales_file_def raw_ok_def)

lemma no_sales_file_others:
  "load_market_data_from raw_no_sales_file = Inr (load_market_data sportswear_table jersey_table)"
  "load_trends_data raw_no_sales_file = Inr trends_table"
  "load_challengers_impact raw_no_sales_file = Inr []"
  by (simp_all add: load_market_data_from_def load_trends_data_def load_challengers_impact_def
      read_csv_def raw_no_sales_file_def raw_ok_def)

text \<open>
  C7, the claim as stated, fails: the five derivations run one after the other with no
  exception handler between them.  When the sales file is absent, the market, trends
  and Challengers tables could each be derived, yet the run ends with
  FileNotFoundError and has written nothing.
\<close>

theorem process_all_independent_counterexample:
  "load_market_data_from raw_no_sales_file = Inr (load_market_data sportswear_table jersey_table)
   \<and> load_trends_data raw_no_sales_file = Inr trends_table
   \<and> load_challengers_impact raw_no_sales_file = Inr []
   \<and> process_all exact_ops raw_no_sales_file empty_dir = (empty_dir, Inl FileNotFoundError)"
  by (simp add: no_sales_file_run no_sales_file_others)

text \<open>
  C7, amended: a full run derives and writes the five tables one after the other, in
  the order tenniscore, market, trends, challengers, summary.  The first derivation that
  fails ends the run with its exception: exactly the tables before it have been written,
  and no later table is derived or written.  The run returns the five tables only when
  no derivation fails.
\<close>

theorem process_all_sequential:
  "fst (process_all F raw out0)
     = write_tables (take (first_failure F raw) (zip output_files (derivations F raw))) out0
   \<and> (first_failure F raw < 5 \<longrightarrow>
        snd (process_all F raw out0) = Inl (projl (derivations F raw ! first_failure F raw)))
   \<and> (first_failure F raw = 5) = (\<not> isl (snd (process_all F raw out0)))
   \<and> first_failure F raw \<le> 5"
proof (cases "load_tenniscore_sales_from raw")
  case (Inl e)
  then show ?thesis
    by (simp add: process_all_def derivations_def first_failure_def write_tables_def)
next
  case a: (Inr sales)
  show ?thesis
  proof (cases "load_market_data_from raw")
    case (Inl e)
    with a show ?thesis
      by (simp add: process_all_def derivations_def first_failure_def write_tables_def
          output_files_def)
  next
    case b: (Inr market)
    show ?thesis
    proof (cases "load_trends_data raw")
      case (Inl e)
      with a b show ?thesis
        by (simp add: process_all_def derivations_def first_failure_def write_tables_def
            output_files_def)
    next
      case c: (Inr trends)
      show ?thesis
      proof (cases "load_challengers_impact raw")
        case (Inl e)
        with a b c show ?thesis
          by (simp add: process_all_def derivations_def first_failure_def write_tables_def
              output_files_def)
      next
        case d: (Inr challengers)
        show ?thesis
        proof (cases "create_summary_stats F raw")
          case (Inl e)
          with a b c d show ?thesis
            by (simp add: process_all_def derivations_def first_failure_def write_tables_def
                output_files_def)
        next
          case (Inr s)
          with a b c d show ?thesis
            by (simp add: process_all_def derivations_def first_failure_def write_tables_def
                output_files_def)
        qed
      qed
    qed
  qed
qed

theorem process_all_sequential_witness:
  "first_failure exact_ops raw_sales_dropped = 4
   \<and> snd (process_all exact_ops raw_sales_dropped empty_dir) = Inl IndexError
   \<and> fst (process_all exact_ops raw_sales_dropped empty_dir) ''challengers_processed.csv''
       = Some (ChallengersCsv [])
   \<and> fst (process_all exact_ops raw_sales_dropped empty_dir) ''summary_stats.csv'' = None"
proof -
  have s: "create_summary_stats exact_ops raw_sales_dropped = Inl IndexError"
    by (rule summary_fails_without_sales[OF present_examples(2) sales_examples_nonempty(1) load_null_item])
  have d: "derivations exact_ops raw_sales_dropped =
     [Inr (SalesCsv []), Inr (MarketCsv (load_market_data sportswear_table jersey_table)),
      Inr (TrendsCsv trends_table), Inr (ChallengersCsv []), Inl IndexError]"
    unfolding derivations_def s
    by (simp add: load_tenniscore_sales_from_def load_market_data_from_def
        load_trends_data_def load_challengers_impact_def read_csv_def raw_sales_dropped_def
        raw_ok_def load_null_item)
  have k: "first_failure exact_ops raw_sales_dropped = 4"
    by (simp add: first_failure_def d)
  from process_all_sequential[of exact_ops raw_sales_dropped empty_dir]
  have f: "fst (process_all exact_ops raw_sales_dropped empty_dir)
     = write_tables (take 4 (zip output_files (derivations exact_ops raw_sales_dropped))) empty_dir"
    and r: "snd (process_all exact_ops raw_sales_dropped empty_dir) = Inl IndexError"
    unfolding k by (simp_all add: d)
  have "fst (process_all exact_ops raw_sales_dropped empty_dir) ''challengers_processed.csv''
       = Some (ChallengersCsv [])"
    unfolding f d by (simp add: write_tables_def output_files_def empty_dir_def)
  moreover have "fst (process_all exact_ops raw_sales_dropped empty_dir) ''summary_stats.csv'' = None"
    unfolding f d by (simp add: write_tables_def output_files_def empty_dir_def)
  ultimately show ?thesis using k r by simp
qed

end
